theory Spec2Isabelle
  imports Complex_Main
begin

section \<open>Data model\<close>

text \<open>
  JavaScript numbers are modelled as rationals (the operations used here are negation,
  addition, halving and comparison with zero). A property that may be missing from an
  object is an \<open>option\<close>, with \<open>None\<close> for \<open>undefined\<close>.
\<close>

text \<open>An entry of the \<open>emotes\<close> world setting.\<close>

record emote =
  emote_id :: string
  emote_name :: string
  emote_image :: string
  offsetX :: "rat option"
  offsetY :: "rat option"
  scale :: "rat option"
  duration :: "rat option"
  fadeIn :: "rat option"
  fadeOut :: "rat option"

text \<open>
  \<open>token.document\<close>: the fields the module reads and updates. The two texture scale
  factors are the properties \<open>texture.scaleX\<close> and \<open>texture.scaleY\<close>.
\<close>

record document =
  isOwner :: bool
  doc_y :: rat
  texture_scaleX :: rat
  texture_scaleY :: rat

text \<open>
  A token placeable. \<open>animationContexts\<close> holds the size of the host's map of running
  animations, \<open>None\<close> when the host object has no such map.
\<close>

record token =
  tok_id :: string
  tok_name :: string
  tok_x :: rat
  tok_y :: rat
  tok_w :: rat
  animationContexts :: "nat option"
  document :: document

text \<open>A PIXI sprite, with the fields \<open>renderEmoteLocally\<close> sets.\<close>

record sprite =
  texture :: string
  anchor :: "rat \<times> rat"
  sprite_scale :: "rat \<times> rat"
  alpha :: rat
  position :: "rat \<times> rat"
  destroyed :: bool

datatype property = ScaleX | ScaleY | PosY

datatype easing = EaseOutQuad | EaseInQuad

text \<open>
  A call \<open>token.document.update({property: value}, {animate, animation: {duration, easing}})\<close>
  on the token with the given reference.
\<close>

datatype update = Update nat property rat bool rat "easing option"

text \<open>
  What the module does to the host, in program order: notifications, console output,
  socket messages, document updates, texture loads, scene-graph changes, animations and
  timers.
\<close>

datatype event =
    NotifyWarn string
  | NotifyError string
  | ConsoleWarn string
  | ConsoleError string
  | SocketEmit "string option" string string
  | DocumentUpdate update
  | LoadTexture string
  | AddChild nat
  | RemoveChild nat
  | Destroy nat
  | Animate nat rat rat
  | SetTimeout rat

text \<open>
  The state of one client. Tokens and sprites are JavaScript objects: they live in a heap
  indexed by reference, and the layer, the selection, the scene's child list and the
  \<open>activeEmotes\<close> map hold references. \<open>scene_id\<close> is \<open>canvas.scene?.id\<close>,
  \<open>emotes_setting\<close> is what \<open>game.settings.get(MODULE_ID, "emotes")\<close> returns.
\<close>

record client =
  scene_id :: "string option"
  tokens :: "nat \<Rightarrow> token"
  placeables :: "nat list"
  controlled :: "nat list"
  emotes_setting :: "emote list option"
  flipDuration :: rat
  bounceHeight :: rat
  bounceDuration :: rat
  bounceCount :: int
  activeEmotes :: "string \<rightharpoonup> nat"
  sprites :: "nat \<Rightarrow> sprite"
  next_sprite :: nat
  children :: "nat list"
  trace :: "event list"

definition emit :: "event \<Rightarrow> client \<Rightarrow> client" where
  "emit e c = c\<lparr>trace := trace c @ [e]\<rparr>"

section \<open>Emote playback\<close>

text \<open>\<open>x || d\<close> on a number that may be missing: \<open>undefined\<close> and \<open>0\<close> are falsy.\<close>

definition js_or :: "rat option \<Rightarrow> rat \<Rightarrow> rat" where
  "js_or x d = (case x of None \<Rightarrow> d | Some v \<Rightarrow> if v = 0 then d else v)"

text \<open>\<open>canvas.tokens.get(tokenId)\<close>: the token on the layer with that id, if any.\<close>

definition canvas_tokens_get :: "client \<Rightarrow> string \<Rightarrow> nat option" where
  "canvas_tokens_get c tokenId = find (\<lambda>r. tok_id (tokens c r) = tokenId) (placeables c)"

text \<open>\<open>game.settings.get(MODULE_ID, "emotes") || []\<close>.\<close>

definition settings_emotes :: "client \<Rightarrow> emote list" where
  "settings_emotes c = (case emotes_setting c of None \<Rightarrow> [] | Some es \<Rightarrow> es)"

definition emoteKey :: "string \<Rightarrow> string \<Rightarrow> string" where
  "emoteKey tokenId emoteId = tokenId @ ''-'' @ emoteId"

text \<open>
  \<open>renderEmoteLocally\<close> is an async function: a call runs up to its first \<open>await\<close> and
  suspends; each time the awaited promise settles it runs on to the next \<open>await\<close> or to
  a return. The suspension points, with the local variables that are live there, and the
  return statements of the source:
\<close>

datatype exit = SceneMismatch | NoToken | NoEmote | AlreadyPlaying | LoadFailed | Caught | Completed

datatype pc =
    AwaitLoadTexture string nat emote
  | AwaitFadeIn string nat emote
  | AwaitHold string nat emote
  | AwaitFadeOut string nat emote
  | Done exit

text \<open>
  How an awaited promise settles: fulfilled (for \<open>loadTexture\<close> with a texture, or with
  a falsy value, \<open>None\<close>), or rejected, which makes the \<open>await\<close> throw.
\<close>

datatype settled = Fulfilled "string option" | Rejected

text \<open>
  \<open>animateSprite(sprite, {alpha: v}, duration)\<close>: with a duration of at most zero the
  property is assigned at once; otherwise the host animation is started.
\<close>

definition animateSprite :: "nat \<Rightarrow> rat \<Rightarrow> rat \<Rightarrow> client \<Rightarrow> client" where
  "animateSprite s v d c =
     (if d \<le> 0 then c\<lparr>sprites := (sprites c)(s := (sprites c s)\<lparr>alpha := v\<rparr>)\<rparr>
      else emit (Animate s v d) c)"

text \<open>
  The host's contract for \<open>CanvasAnimation.animate\<close>: when its promise is fulfilled the
  animated attribute has reached its target.
\<close>

definition animation_done :: "nat \<Rightarrow> rat \<Rightarrow> rat \<Rightarrow> client \<Rightarrow> client" where
  "animation_done s v d c =
     (if d \<le> 0 then c else c\<lparr>sprites := (sprites c)(s := (sprites c s)\<lparr>alpha := v\<rparr>)\<rparr>)"

text \<open>\<open>wait(ms)\<close>.\<close>

definition wait :: "rat \<Rightarrow> client \<Rightarrow> client" where
  "wait ms c = emit (SetTimeout ms) c"

text \<open>The call itself: from entry to the first \<open>await\<close>.\<close>

definition renderEmoteLocally :: "string option \<Rightarrow> string \<Rightarrow> string \<Rightarrow> client \<Rightarrow> pc \<times> client" where
  "renderEmoteLocally sceneId tokenId emoteId c =
     (if scene_id c \<noteq> sceneId then (Done SceneMismatch, c)
      else case canvas_tokens_get c tokenId of
        None \<Rightarrow> (Done NoToken, c)
      | Some tok \<Rightarrow>
          (case find (\<lambda>e. emote_id e = emoteId) (settings_emotes c) of
             None \<Rightarrow> (Done NoEmote, c)
           | Some em \<Rightarrow>
               if activeEmotes c (emoteKey tokenId emoteId) \<noteq> None then (Done AlreadyPlaying, c)
               else (AwaitLoadTexture (emoteKey tokenId emoteId) tok em,
                     emit (LoadTexture (emote_image em)) c)))"

text \<open>The \<open>catch\<close> block.\<close>

definition catch_block :: "string \<Rightarrow> client \<Rightarrow> pc \<times> client" where
  "catch_block k c =
     (Done Caught,
      (emit (ConsoleError ''tokenflipper | Error playing emote:'') c)
        \<lparr>activeEmotes := (activeEmotes c)(k := None)\<rparr>)"

text \<open>Creating and placing the sprite, adding it to the scene and registering it.\<close>

definition new_sprite :: "string \<Rightarrow> emote \<Rightarrow> token \<Rightarrow> sprite" where
  "new_sprite tex em tok =
     \<lparr>texture = tex,
      anchor = (1 / 2, 1),
      sprite_scale = (js_or (scale em) 1, js_or (scale em) 1),
      alpha = 0,
      position = (tok_x tok + tok_w tok / 2 + js_or (offsetX em) 0,
                  tok_y tok + js_or (offsetY em) 0),
      destroyed = False\<rparr>"

definition add_sprite :: "string \<Rightarrow> string \<Rightarrow> emote \<Rightarrow> nat \<Rightarrow> client \<Rightarrow> client" where
  "add_sprite k tex em tok c =
     (emit (AddChild (next_sprite c)) c)
       \<lparr>sprites := (sprites c)(next_sprite c := new_sprite tex em (tokens c tok)),
        next_sprite := Suc (next_sprite c),
        children := children c @ [next_sprite c],
        activeEmotes := (activeEmotes c)(k \<mapsto> next_sprite c)\<rparr>"

text \<open>The cleanup at the end of the \<open>try\<close> block.\<close>

definition cleanup :: "string \<Rightarrow> nat \<Rightarrow> client \<Rightarrow> client" where
  "cleanup k s c =
     (emit (Destroy s) (emit (RemoveChild s) c))
       \<lparr>children := remove1 s (children c),
        sprites := (sprites c)(s := (sprites c s)\<lparr>destroyed := True\<rparr>),
        activeEmotes := (activeEmotes c)(k := None)\<rparr>"

text \<open>Resuming a suspended call when the promise it awaits has settled.\<close>

fun resume :: "settled \<Rightarrow> pc \<Rightarrow> client \<Rightarrow> pc \<times> client" where
  "resume Rejected (AwaitLoadTexture k tok em) c = catch_block k c"
| "resume (Fulfilled None) (AwaitLoadTexture k tok em) c =
     (Done LoadFailed,
      emit (ConsoleWarn (''tokenflipper | Failed to load emote texture: '' @ emote_image em)) c)"
| "resume (Fulfilled (Some tex)) (AwaitLoadTexture k tok em) c =
     (AwaitFadeIn k (next_sprite c) em,
      animateSprite (next_sprite c) 1 (js_or (fadeIn em) 200) (add_sprite k tex em tok c))"
| "resume Rejected (AwaitFadeIn k s em) c = catch_block k c"
| "resume (Fulfilled v) (AwaitFadeIn k s em) c =
     (AwaitHold k s em,
      wait (js_or (duration em) 1500) (animation_done s 1 (js_or (fadeIn em) 200) c))"
| "resume Rejected (AwaitHold k s em) c = catch_block k c"
| "resume (Fulfilled v) (AwaitHold k s em) c =
     (AwaitFadeOut k s em, animateSprite s 0 (js_or (fadeOut em) 200) c)"
| "resume Rejected (AwaitFadeOut k s em) c = catch_block k c"
| "resume (Fulfilled v) (AwaitFadeOut k s em) c =
     (Done Completed, cleanup k s (animation_done s 0 (js_or (fadeOut em) 200) c))"
| "resume r (Done x) c = (Done x, c)"

text \<open>
  One call driven to its end by the outcomes of the promises it awaits, with nothing else
  running in between. A call that has returned ignores further outcomes.
\<close>

fun run :: "settled list \<Rightarrow> pc \<times> client \<Rightarrow> pc \<times> client" where
  "run [] st = st"
| "run (r # rs) (p, c) = run rs (resume r p c)"

text \<open>
  One call of \<open>renderEmoteLocally\<close> together with the outcomes of the promises it
  awaits: the call itself, then one resumption for each outcome.
\<close>

definition playback :: "settled list \<Rightarrow> string option \<Rightarrow> string \<Rightarrow> string \<Rightarrow> client \<Rightarrow> pc \<times> client" where
  "playback rs sceneId tokenId emoteId c = run rs (renderEmoteLocally sceneId tokenId emoteId c)"

text \<open>The socket listener installed by \<open>initializeEmoteSockets\<close>.\<close>

record message =
  action :: string
  msg_sceneId :: "string option"
  msg_tokenId :: string
  msg_emoteId :: string

definition on_socket_message :: "message \<Rightarrow> client \<Rightarrow> pc option \<times> client" where
  "on_socket_message data c =
     (if action data = ''playEmote''
      then (case renderEmoteLocally (msg_sceneId data) (msg_tokenId data) (msg_emoteId data) c of
              (p, c') \<Rightarrow> (Some p, c'))
      else (None, c))"

section \<open>Several playbacks on one client\<close>

text \<open>
  The client runs one handler at a time, and handlers interleave at their suspension
  points only. An action of the environment is either a new playback request, which runs
  \<open>renderEmoteLocally\<close> up to its first \<open>await\<close>, or the settling of the promise that
  the \<open>i\<close>-th call is waiting for, which resumes that call.
\<close>

datatype action = Trigger "string option" string string | Settle nat settled

fun step :: "action \<Rightarrow> pc list \<times> client \<Rightarrow> pc list \<times> client" where
  "step (Trigger sceneId tokenId emoteId) (ps, c) =
     (case renderEmoteLocally sceneId tokenId emoteId c of (p, c') \<Rightarrow> (ps @ [p], c'))"
| "step (Settle i r) (ps, c) =
     (if i < length ps then (case resume r (ps ! i) c of (p, c') \<Rightarrow> (ps[i := p], c'))
      else (ps, c))"

definition exec :: "action list \<Rightarrow> pc list \<times> client \<Rightarrow> pc list \<times> client" where
  "exec as st = foldl (\<lambda>st a. step a st) st as"

text \<open>A call that has registered its sprite and has not yet returned.\<close>

fun in_stage :: "string \<Rightarrow> pc \<Rightarrow> bool" where
  "in_stage k (AwaitFadeIn k' s em) = (k = k')"
| "in_stage k (AwaitHold k' s em) = (k = k')"
| "in_stage k (AwaitFadeOut k' s em) = (k = k')"
| "in_stage k (AwaitLoadTexture k' tok em) = False"
| "in_stage k (Done x) = False"

text \<open>
  Every entry of \<open>activeEmotes\<close> belongs to a call that is between its registration
  and its return.
\<close>

definition entries_have_calls :: "pc list \<times> client \<Rightarrow> bool" where
  "entries_have_calls st =
     (\<forall>k. activeEmotes (snd st) k \<noteq> None \<longrightarrow> (\<exists>p \<in> set (fst st). in_stage k p))"

section \<open>Triggering an emote on the selection\<close>

datatype error = TypeError

definition permission_warning :: "string \<Rightarrow> string \<Rightarrow> event" where
  "permission_warning verb name =
     NotifyWarn (''You don't have permission to '' @ verb @ '' '' @ name @ ''.'')"

text \<open>
  The loop of \<open>playEmote\<close> over the selected tokens. \<open>renderEmoteLocally\<close> is called
  without \<open>await\<close>, so each call runs to its first suspension point and is returned as a
  started call. \<open>canvas.scene.id\<close> throws when no scene is viewed.
\<close>

fun emote_loop :: "string \<Rightarrow> nat list \<Rightarrow> client \<Rightarrow> error option \<times> pc list \<times> client" where
  "emote_loop emoteId [] c = (None, [], c)"
| "emote_loop emoteId (r # rs) c =
     (if \<not> isOwner (document (tokens c r))
      then emote_loop emoteId rs (emit (permission_warning ''emote with'' (tok_name (tokens c r))) c)
      else if scene_id c = None then (Some TypeError, [], c)
      else case renderEmoteLocally (scene_id c) (tok_id (tokens c r)) emoteId c of
        (p, c1) \<Rightarrow>
          (case emote_loop emoteId rs
                  (emit (SocketEmit (scene_id c) (tok_id (tokens c r)) emoteId) c1) of
             (err, ps, c2) \<Rightarrow> (err, p # ps, c2)))"

definition playEmote :: "string \<Rightarrow> client \<Rightarrow> error option \<times> pc list \<times> client" where
  "playEmote emoteId c =
     (if controlled c = [] then (None, [], emit (NotifyWarn ''No tokens selected for emote.'') c)
      else case find (\<lambda>e. emote_id e = emoteId) (settings_emotes c) of
        None \<Rightarrow>
          (None, [],
           emit (NotifyError (''Emote '' @ [CHR 0x22] @ emoteId @ [CHR 0x22] @ '' not found.'')) c)
      | Some em \<Rightarrow> emote_loop emoteId (controlled c) c)"

section \<open>Flip and bounce\<close>

text \<open>\<open>token.animationContexts?.size > 0\<close>.\<close>

definition animating :: "token \<Rightarrow> bool" where
  "animating t = (case animationContexts t of None \<Rightarrow> False | Some n \<Rightarrow> n > 0)"

fun getProperty :: "document \<Rightarrow> property \<Rightarrow> rat" where
  "getProperty d ScaleX = texture_scaleX d"
| "getProperty d ScaleY = texture_scaleY d"
| "getProperty d PosY = doc_y d"

fun setProperty :: "property \<Rightarrow> rat \<Rightarrow> document \<Rightarrow> document" where
  "setProperty ScaleX v d = d\<lparr>texture_scaleX := v\<rparr>"
| "setProperty ScaleY v d = d\<lparr>texture_scaleY := v\<rparr>"
| "setProperty PosY v d = d\<lparr>doc_y := v\<rparr>"

text \<open>
  An awaited \<open>document.update\<close>: when its promise is fulfilled the document holds the new
  value. The host fulfils it for an owner of the document; how the host then animates
  the placeable is not part of the module.
\<close>

fun update_document :: "update \<Rightarrow> client \<Rightarrow> client" where
  "update_document (Update r p v animate d ez) c =
     (emit (DocumentUpdate (Update r p v animate d ez)) c)
       \<lparr>tokens := (tokens c)(r := (tokens c r)\<lparr>document := setProperty p v (document (tokens c r))\<rparr>)\<rparr>"

text \<open>The loop of \<open>flipSelectedTokens\<close>; each update is awaited before the next token.\<close>

fun flip_loop :: "property \<Rightarrow> rat \<Rightarrow> nat list \<Rightarrow> client \<Rightarrow> client" where
  "flip_loop p d [] c = c"
| "flip_loop p d (r # rs) c =
     (if \<not> isOwner (document (tokens c r))
      then flip_loop p d rs (emit (permission_warning ''flip'' (tok_name (tokens c r))) c)
      else if animating (tokens c r) then flip_loop p d rs c
      else flip_loop p d rs
             (update_document
                (Update r p (getProperty (document (tokens c r)) p * - 1) (d > 0) d None) c))"

definition flipSelectedTokens :: "string \<Rightarrow> client \<Rightarrow> client" where
  "flipSelectedTokens direction c =
     (if controlled c = [] then emit (NotifyWarn ''No tokens selected to flip.'') c
      else flip_loop (if direction = ''vertical'' then ScaleY else ScaleX) (flipDuration c)
             (controlled c) c)"

text \<open>
  \<open>doBounceAnimation\<close>: the document updates it awaits, in program order. The loop counter
  runs from \<open>0\<close> while it is below \<open>count\<close>.
\<close>

function bounce_loop :: "int \<Rightarrow> int \<Rightarrow> nat \<Rightarrow> rat \<Rightarrow> rat \<Rightarrow> rat \<Rightarrow> update list" where
  "bounce_loop i count r originalY height dur =
     (if i < count
      then Update r PosY (originalY - height) True (dur / 2) (Some EaseOutQuad)
         # Update r PosY originalY True (dur / 2) (Some EaseInQuad)
         # bounce_loop (i + 1) count r originalY height dur
      else [])"
  by pat_completeness auto
termination
  by (relation "measure (\<lambda>(i, count, r, originalY, height, dur). nat (count - i))") auto

definition doBounceAnimation :: "client \<Rightarrow> nat \<Rightarrow> rat \<Rightarrow> rat \<Rightarrow> int \<Rightarrow> update list" where
  "doBounceAnimation c r height dur count =
     bounce_loop 0 count r (doc_y (document (tokens c r))) height dur"

text \<open>
  The loop of \<open>bounceSelectedTokens\<close>. \<open>doBounceAnimation\<close> is called without \<open>await\<close>:
  the loop returns the started animations, one list of pending updates for each token
  that bounces.
\<close>

fun bounce_select_loop ::
  "rat \<Rightarrow> rat \<Rightarrow> int \<Rightarrow> nat list \<Rightarrow> client \<Rightarrow> update list list \<times> client" where
  "bounce_select_loop h d n [] c = ([], c)"
| "bounce_select_loop h d n (r # rs) c =
     (if \<not> isOwner (document (tokens c r))
      then bounce_select_loop h d n rs
             (emit (permission_warning ''bounce'' (tok_name (tokens c r))) c)
      else if animating (tokens c r) then bounce_select_loop h d n rs c
      else case bounce_select_loop h d n rs c of
             (anims, c') \<Rightarrow> (doBounceAnimation c r h d n # anims, c'))"

definition bounceSelectedTokens :: "client \<Rightarrow> update list list \<times> client" where
  "bounceSelectedTokens c =
     (if controlled c = [] then ([], emit (NotifyWarn ''No tokens selected to bounce.'') c)
      else bounce_select_loop (bounceHeight c) (bounceDuration c) (bounceCount c)
             (controlled c) c)"

text \<open>The updates of started animations landing one after the other, in the given order.\<close>

definition land :: "update list \<Rightarrow> client \<Rightarrow> client" where
  "land us c = fold update_document us c"

fun update_ref :: "update \<Rightarrow> nat" where
  "update_ref (Update r p v animate d ez) = r"

fun update_easing :: "update \<Rightarrow> easing option" where
  "update_easing (Update r p v animate d ez) = ez"

section \<open>The default emotes and a small table\<close>

definition default_emote :: "string \<Rightarrow> string \<Rightarrow> rat \<Rightarrow> emote" where
  "default_emote i n dur =
     \<lparr>emote_id = i, emote_name = n,
      emote_image = ''modules/tokenflipper/assets/'' @ i @ ''.svg'',
      offsetX = Some 0, offsetY = Some (- 20), scale = Some (3 / 4),
      duration = Some dur, fadeIn = Some 200, fadeOut = Some 200\<rparr>"

definition getDefaultEmotes :: "emote list" where
  "getDefaultEmotes =
     [default_emote ''exclamation'' ''Exclamation'' 1500,
      default_emote ''question'' ''Question'' 1500,
      (default_emote ''ellipsis'' ''Thinking'' 2000),
      default_emote ''heart'' ''Heart'' 1500]"

text \<open>
  A client viewing scene \<open>S\<close> with two tokens on it, both selected: \<open>A\<close>, which the user
  owns, and \<open>B\<close>, which the user does not own. No emote is playing.
\<close>

definition token_A :: token where
  "token_A =
     \<lparr>tok_id = ''A'', tok_name = ''Alice'', tok_x = 100, tok_y = 200, tok_w = 50,
      animationContexts = Some 0,
      document = \<lparr>isOwner = True, doc_y = 200, texture_scaleX = 3 / 4, texture_scaleY = 1\<rparr>\<rparr>"

definition token_B :: token where
  "token_B =
     \<lparr>tok_id = ''B'', tok_name = ''Bob'', tok_x = 300, tok_y = 400, tok_w = 50,
      animationContexts = Some 0,
      document = \<lparr>isOwner = False, doc_y = 400, texture_scaleX = 1, texture_scaleY = 1\<rparr>\<rparr>"

definition blank_sprite :: sprite where
  "blank_sprite =
     \<lparr>texture = [], anchor = (0, 0), sprite_scale = (1, 1), alpha = 1, position = (0, 0),
      destroyed = False\<rparr>"

definition table :: client where
  "table =
     \<lparr>scene_id = Some ''S'',
      tokens = (\<lambda>r. if r = 0 then token_A else token_B),
      placeables = [0, 1],
      controlled = [0, 1],
      emotes_setting = Some getDefaultEmotes,
      flipDuration = 200, bounceHeight = 20, bounceDuration = 150, bounceCount = 3,
      activeEmotes = Map.empty,
      sprites = (\<lambda>r. blank_sprite),
      next_sprite = 0,
      children = [],
      trace = []\<rparr>"

text \<open>The same table when the user owns both tokens.\<close>

definition party :: client where
  "party = table\<lparr>tokens := (\<lambda>r. if r = 0 then token_A
                               else token_B\<lparr>document := (document token_B)\<lparr>isOwner := True\<rparr>\<rparr>)\<rparr>"

text \<open>An emote whose timing, scale and offset fields are zero or missing.\<close>

definition zero_emote :: emote where
  "zero_emote =
     \<lparr>emote_id = ''zero'', emote_name = ''Zero'', emote_image = ''zero.svg'',
      offsetX = Some 0, offsetY = None, scale = Some 0,
      duration = Some 0, fadeIn = Some 0, fadeOut = None\<rparr>"

section \<open>One playback call\<close>

lemma run_Done [simp]: "run rs (Done x, c) = (Done x, c)"
  by (induction rs) simp_all

lemma activeEmotes_emit [simp]: "activeEmotes (emit e c) = activeEmotes c"
  by (simp add: emit_def)

lemma children_emit [simp]: "children (emit e c) = children c"
  by (simp add: emit_def)

lemma sprites_emit [simp]: "sprites (emit e c) = sprites c"
  by (simp add: emit_def)

lemma trace_emit [simp]: "trace (emit e c) = trace c @ [e]"
  by (simp add: emit_def)

lemma renderEmoteLocally_cases:
  assumes "renderEmoteLocally sceneId tokenId emoteId c = (p, c')"
  shows "(\<exists>x. p = Done x \<and> x \<in> {SceneMismatch, NoToken, NoEmote, AlreadyPlaying} \<and> c' = c)
       \<or> (\<exists>tok em. p = AwaitLoadTexture (emoteKey tokenId emoteId) tok em
            \<and> activeEmotes c (emoteKey tokenId emoteId) = None
            \<and> c' = emit (LoadTexture (emote_image em)) c)"
  using assms by (auto simp: renderEmoteLocally_def split: if_splits option.splits)

lemma run_from_fade_out:
  assumes "run rs (AwaitFadeOut k s em, c) = (Done x, c')"
  shows "activeEmotes c' k = None"
proof (cases rs)
  case Nil
  with assms show ?thesis by simp
next
  case (Cons r rs')
  with assms show ?thesis
    by (cases r) (auto simp: catch_block_def cleanup_def)
qed

lemma run_from_hold:
  assumes "run rs (AwaitHold k s em, c) = (Done x, c')"
  shows "activeEmotes c' k = None"
proof (cases rs)
  case Nil
  with assms show ?thesis by simp
next
  case (Cons r rs')
  with assms show ?thesis
    by (cases r) (auto simp: catch_block_def dest: run_from_fade_out)
qed

lemma run_from_fade_in:
  assumes "run rs (AwaitFadeIn k s em, c) = (Done x, c')"
  shows "activeEmotes c' k = None"
proof (cases rs)
  case Nil
  with assms show ?thesis by simp
next
  case (Cons r rs')
  with assms show ?thesis
    by (cases r) (auto simp: catch_block_def dest: run_from_hold)
qed

lemma run_from_load:
  assumes "run rs (AwaitLoadTexture k tok em, c) = (Done x, c')"
    and "activeEmotes c k = None"
  shows "activeEmotes c' k = None"
proof (cases rs)
  case Nil
  with assms show ?thesis by simp
next
  case (Cons r rs')
  show ?thesis
  proof (cases r)
    case Rejected
    with Cons assms show ?thesis by (auto simp: catch_block_def)
  next
    case (Fulfilled v)
    with Cons assms show ?thesis
      by (cases v) (auto dest: run_from_fade_in)
  qed
qed

lemma run_leaves_no_entry:
  assumes "run rs (renderEmoteLocally sceneId tokenId emoteId c) = (Done x, c')"
    and "x \<in> {Completed, LoadFailed, Caught}"
  shows "activeEmotes c' (emoteKey tokenId emoteId) = None"
proof -
  obtain p c0 where start: "renderEmoteLocally sceneId tokenId emoteId c = (p, c0)"
    by (cases "renderEmoteLocally sceneId tokenId emoteId c")
  from renderEmoteLocally_cases [OF start] show ?thesis
  proof (elim disjE exE conjE)
    fix y assume "p = Done y" "y \<in> {SceneMismatch, NoToken, NoEmote, AlreadyPlaying}" "c0 = c"
    with assms start show ?thesis by auto
  next
    fix tok em
    assume "p = AwaitLoadTexture (emoteKey tokenId emoteId) tok em"
      "activeEmotes c (emoteKey tokenId emoteId) = None"
      "c0 = emit (LoadTexture (emote_image em)) c"
    with assms(1) start show ?thesis
      by (auto dest: run_from_load)
  qed
qed

lemmas playback_defs =
  renderEmoteLocally_def canvas_tokens_get_def settings_emotes_def emoteKey_def
  animateSprite_def animation_done_def wait_def catch_block_def add_sprite_def
  new_sprite_def cleanup_def js_or_def emit_def

lemmas table_defs =
  table_def token_A_def token_B_def blank_sprite_def getDefaultEmotes_def default_emote_def

text \<open>
  Claim C4 (order of the stages). For an emote with fade-in 200, duration 1500 and fade-out
  200 on a token of the viewed scene, with no playback registered for the key: the call
  suspends on the texture load; when the texture arrives the sprite is added with opacity 0
  and the fade-in to 1 over 200 starts; when that is done the opacity is 1 and the hold of
  1500 starts; after the hold the fade-out to 0 over 200 starts; when it is done the opacity
  is 0, and only then the sprite is removed from the scene and destroyed. Each stage is
  started by the resumption that ends the stage before it.
\<close>

theorem heart_playback_in_order:
  assumes "scene_id c = sceneId"
    and "canvas_tokens_get c tokenId = Some tok"
    and "find (\<lambda>e. emote_id e = emoteId) (settings_emotes c) = Some em"
    and "fadeIn em = Some 200" and "duration em = Some 1500" and "fadeOut em = Some 200"
    and "activeEmotes c (emoteKey tokenId emoteId) = None"
    and "next_sprite c \<notin> set (children c)"
    and "k = emoteKey tokenId emoteId" and "s = next_sprite c"
    and "st0 = playback [] sceneId tokenId emoteId c"
    and "st1 = playback [Fulfilled (Some tex)] sceneId tokenId emoteId c"
    and "st2 = playback [Fulfilled (Some tex), Fulfilled v1] sceneId tokenId emoteId c"
    and "st3 = playback [Fulfilled (Some tex), Fulfilled v1, Fulfilled v2] sceneId tokenId emoteId c"
    and "st4 = playback [Fulfilled (Some tex), Fulfilled v1, Fulfilled v2, Fulfilled v3]
                 sceneId tokenId emoteId c"
  shows "fst st0 = AwaitLoadTexture k tok em
          \<and> trace (snd st0) = trace c @ [LoadTexture (emote_image em)]
          \<and> children (snd st0) = children c
          \<and> fst st1 = AwaitFadeIn k s em
          \<and> trace (snd st1) = trace (snd st0) @ [AddChild s, Animate s 1 200]
          \<and> children (snd st1) = children c @ [s]
          \<and> alpha (sprites (snd st1) s) = 0
          \<and> fst st2 = AwaitHold k s em
          \<and> trace (snd st2) = trace (snd st1) @ [SetTimeout 1500]
          \<and> children (snd st2) = children c @ [s]
          \<and> alpha (sprites (snd st2) s) = 1
          \<and> fst st3 = AwaitFadeOut k s em
          \<and> trace (snd st3) = trace (snd st2) @ [Animate s 0 200]
          \<and> children (snd st3) = children c @ [s]
          \<and> alpha (sprites (snd st3) s) = 1
          \<and> fst st4 = Done Completed
          \<and> trace (snd st4) = trace (snd st3) @ [RemoveChild s, Destroy s]
          \<and> children (snd st4) = children c
          \<and> alpha (sprites (snd st4) s) = 0
          \<and> destroyed (sprites (snd st4) s)"
proof -
  have rm: "remove1 (next_sprite c) (children c @ [next_sprite c]) = children c"
    using assms(8) by (simp add: remove1_append)
  show ?thesis
    using assms(1-7) rm unfolding assms(9-15)
    by (simp add: playback_def renderEmoteLocally_def animateSprite_def animation_done_def wait_def
        add_sprite_def new_sprite_def cleanup_def js_or_def emit_def)
qed

theorem heart_playback_in_order_witness:
  "fst (playback [Fulfilled (Some ''heart.svg''), Fulfilled None, Fulfilled None, Fulfilled None]
          (Some ''S'') ''A'' ''heart'' table) = Done Completed
   \<and> trace (snd (playback [Fulfilled (Some ''heart.svg''), Fulfilled None, Fulfilled None, Fulfilled None]
          (Some ''S'') ''A'' ''heart'' table))
       = [LoadTexture ''modules/tokenflipper/assets/heart.svg'', AddChild 0, Animate 0 1 200,
          SetTimeout 1500, Animate 0 0 200, RemoveChild 0, Destroy 0]"
proof -
  have h1: "scene_id table = Some ''S''" by (simp add: table_def)
  have h2: "canvas_tokens_get table ''A'' = Some 0"
    by (simp add: canvas_tokens_get_def table_defs)
  have h3: "find (\<lambda>e. emote_id e = ''heart'') (settings_emotes table)
       = Some (default_emote ''heart'' ''Heart'' 1500)"
    by (simp add: settings_emotes_def table_defs)
  have h4: "fadeIn (default_emote ''heart'' ''Heart'' 1500) = Some 200"
    by (simp add: default_emote_def)
  have h5: "duration (default_emote ''heart'' ''Heart'' 1500) = Some 1500"
    by (simp add: default_emote_def)
  have h6: "fadeOut (default_emote ''heart'' ''Heart'' 1500) = Some 200"
    by (simp add: default_emote_def)
  have h7: "activeEmotes table (emoteKey ''A'' ''heart'') = None" by (simp add: table_def)
  have h8: "next_sprite table \<notin> set (children table)" by (simp add: table_def)
  have img: "emote_image (default_emote ''heart'' ''Heart'' 1500) = ''modules/tokenflipper/assets/heart.svg''"
    by (simp add: default_emote_def)
  have tr: "trace table = []" and ns: "next_sprite table = 0" by (simp_all add: table_def)
  note F = heart_playback_in_order [OF h1 h2 h3 h4 h5 h6 h7 h8 refl refl refl refl refl refl refl,
      of "''heart.svg''" None None None]
  from F have "fst (playback [Fulfilled (Some ''heart.svg''), Fulfilled None, Fulfilled None, Fulfilled None]
          (Some ''S'') ''A'' ''heart'' table) = Done Completed" by blast
  moreover from F have "trace (snd (playback [Fulfilled (Some ''heart.svg''), Fulfilled None, Fulfilled None, Fulfilled None]
          (Some ''S'') ''A'' ''heart'' table)) = ((((trace table @ [LoadTexture (emote_image (default_emote ''heart'' ''Heart'' 1500))])
           @ [AddChild (next_sprite table), Animate (next_sprite table) 1 200]) @ [SetTimeout 1500])
           @ [Animate (next_sprite table) 0 200]) @ [RemoveChild (next_sprite table), Destroy (next_sprite table)]"
    by (elim conjE) (simp only:)
  ultimately show ?thesis by (simp add: img tr ns)
qed

lemma playback_returned:
  "renderEmoteLocally sceneId tokenId emoteId c = (Done x, c') \<Longrightarrow>
   playback rs sceneId tokenId emoteId c = (Done x, c')"
  by (simp add: playback_def)

text \<open>
  Claim C5 (requests for another scene). A request whose scene id is not the id of the scene
  the client is viewing returns at once and leaves the whole client state as it was: no
  sprite, no entry, nothing logged. This holds for a direct call and for a message received
  on the socket.
\<close>

theorem other_scene_no_effect:
  assumes "sceneId \<noteq> scene_id c"
  shows "playback rs sceneId tokenId emoteId c = (Done SceneMismatch, c)
       \<and> (\<forall>data. action data = ''playEmote'' \<and> msg_sceneId data = sceneId \<longrightarrow>
            on_socket_message data c = (Some (Done SceneMismatch), c))"
proof -
  have "renderEmoteLocally sceneId tokenId emoteId c = (Done SceneMismatch, c)" for tokenId emoteId
    using assms by (auto simp: renderEmoteLocally_def)
  then show ?thesis
    by (simp add: playback_returned on_socket_message_def)
qed

theorem other_scene_no_effect_witness:
  "playback [Fulfilled (Some ''heart.svg''), Fulfilled None] (Some ''T'') ''A'' ''heart'' table
     = (Done SceneMismatch, table)
   \<and> on_socket_message
        \<lparr>action = ''playEmote'', msg_sceneId = Some ''T'', msg_tokenId = ''A'', msg_emoteId = ''heart''\<rparr>
        table = (Some (Done SceneMismatch), table)"
proof -
  have h: "Some ''T'' \<noteq> scene_id table" by (simp add: table_def)
  from other_scene_no_effect [OF h] show ?thesis by simp
qed

text \<open>
  Claim C10 (unknown token, missing setting). When no token of the viewed scene has the
  requested id, or the \<open>emotes\<close> setting is missing, the request returns at once and
  leaves the whole client state as it was, for a direct call and for a message received on
  the socket. The return taken is the first of the scene check, the token lookup and the
  emote lookup that fails.
\<close>

theorem unknown_token_or_missing_setting_no_effect:
  assumes "canvas_tokens_get c tokenId = None \<or> emotes_setting c = None"
    and "x = (if scene_id c \<noteq> sceneId then SceneMismatch
              else if canvas_tokens_get c tokenId = None then NoToken else NoEmote)"
  shows "playback rs sceneId tokenId emoteId c = (Done x, c)
       \<and> (\<forall>data. action data = ''playEmote'' \<and> msg_sceneId data = sceneId
                 \<and> msg_tokenId data = tokenId \<and> msg_emoteId data = emoteId \<longrightarrow>
               on_socket_message data c = (Some (Done x), c))"
proof -
  have "renderEmoteLocally sceneId tokenId emoteId c = (Done x, c)"
    using assms
    by (auto simp: renderEmoteLocally_def settings_emotes_def split: option.splits)
  then show ?thesis
    by (auto simp: playback_returned on_socket_message_def)
qed

theorem unknown_token_or_missing_setting_no_effect_witness:
  "playback [Fulfilled (Some ''heart.svg'')] (Some ''S'') ''Z'' ''heart'' table = (Done NoToken, table)
   \<and> on_socket_message
        \<lparr>action = ''playEmote'', msg_sceneId = Some ''S'', msg_tokenId = ''A'', msg_emoteId = ''heart''\<rparr>
        (table\<lparr>emotes_setting := None\<rparr>) = (Some (Done NoEmote), table\<lparr>emotes_setting := None\<rparr>)"
proof -
  have z: "canvas_tokens_get table ''Z'' = None"
    by (simp add: canvas_tokens_get_def table_defs)
  have a: "canvas_tokens_get (table\<lparr>emotes_setting := None\<rparr>) ''A'' = Some 0"
    by (simp add: canvas_tokens_get_def table_defs)
  have s: "scene_id table = Some ''S''" by (simp add: table_def)
  have h1: "canvas_tokens_get table ''Z'' = None \<or> emotes_setting table = None"
    using z by simp
  have h2: "canvas_tokens_get (table\<lparr>emotes_setting := None\<rparr>) ''A'' = None
            \<or> emotes_setting (table\<lparr>emotes_setting := None\<rparr>) = None"
    by simp
  from unknown_token_or_missing_setting_no_effect [OF h1 refl,
         of "[Fulfilled (Some ''heart.svg'')]" "Some ''S''" "''heart''"]
    unknown_token_or_missing_setting_no_effect [OF h2 refl,
         of "[Fulfilled (Some ''heart.svg'')]" "Some ''S''" "''heart''"]
  show ?thesis using z a s by simp
qed

text \<open>
  Claim C9 (zero counts as missing). A fade-in, duration, fade-out, scale or offset that is
  \<open>0\<close> or missing is replaced when the emote is played: the fade-in and the fade-out
  run over 200, the hold lasts 1500, the sprite has scale 1, and the offset is 0.
\<close>

theorem zero_or_missing_fields_play_as_defaults:
  "(fadeIn em = None \<or> fadeIn em = Some 0 \<longrightarrow>
      resume (Fulfilled (Some tex)) (AwaitLoadTexture k tok em) c =
        (AwaitFadeIn k (next_sprite c) em,
         emit (Animate (next_sprite c) 1 200) (add_sprite k tex em tok c)))
   \<and> (duration em = None \<or> duration em = Some 0 \<longrightarrow>
      resume (Fulfilled v) (AwaitFadeIn k s em) c =
        (AwaitHold k s em, emit (SetTimeout 1500) (animation_done s 1 (js_or (fadeIn em) 200) c)))
   \<and> (fadeOut em = None \<or> fadeOut em = Some 0 \<longrightarrow>
      resume (Fulfilled v) (AwaitHold k s em) c =
        (AwaitFadeOut k s em, emit (Animate s 0 200) c))
   \<and> (scale em = None \<or> scale em = Some 0 \<longrightarrow>
      sprite_scale (sprites (snd (resume (Fulfilled (Some tex)) (AwaitLoadTexture k tok em) c))
                      (next_sprite c)) = (1, 1))
   \<and> (offsetX em = None \<or> offsetX em = Some 0 \<longrightarrow>
      fst (position (sprites (snd (resume (Fulfilled (Some tex)) (AwaitLoadTexture k tok em) c))
                      (next_sprite c))) = tok_x (tokens c tok) + tok_w (tokens c tok) / 2)
   \<and> (offsetY em = None \<or> offsetY em = Some 0 \<longrightarrow>
      snd (position (sprites (snd (resume (Fulfilled (Some tex)) (AwaitLoadTexture k tok em) c))
                      (next_sprite c))) = tok_y (tokens c tok))"
  by (auto simp: animateSprite_def wait_def add_sprite_def new_sprite_def js_or_def emit_def)

theorem zero_or_missing_fields_play_as_defaults_witness:
  "resume (Fulfilled (Some ''zero.svg'')) (AwaitLoadTexture ''A-zero'' 0 zero_emote) table =
     (AwaitFadeIn ''A-zero'' (next_sprite table) zero_emote,
      emit (Animate (next_sprite table) 1 200) (add_sprite ''A-zero'' ''zero.svg'' zero_emote 0 table))
   \<and> resume (Fulfilled None) (AwaitFadeIn ''A-zero'' 0 zero_emote) table =
     (AwaitHold ''A-zero'' 0 zero_emote,
      emit (SetTimeout 1500) (animation_done 0 1 (js_or (fadeIn zero_emote) 200) table))
   \<and> resume (Fulfilled None) (AwaitHold ''A-zero'' 0 zero_emote) table =
     (AwaitFadeOut ''A-zero'' 0 zero_emote, emit (Animate 0 0 200) table)
   \<and> sprite_scale (sprites (snd (resume (Fulfilled (Some ''zero.svg''))
                       (AwaitLoadTexture ''A-zero'' 0 zero_emote) table)) (next_sprite table)) = (1, 1)
   \<and> fst (position (sprites (snd (resume (Fulfilled (Some ''zero.svg''))
                       (AwaitLoadTexture ''A-zero'' 0 zero_emote) table)) (next_sprite table)))
       = tok_x (tokens table 0) + tok_w (tokens table 0) / 2
   \<and> snd (position (sprites (snd (resume (Fulfilled (Some ''zero.svg''))
                       (AwaitLoadTexture ''A-zero'' 0 zero_emote) table)) (next_sprite table)))
       = tok_y (tokens table 0)"
proof -
  have z: "fadeIn zero_emote = None \<or> fadeIn zero_emote = Some 0"
    "duration zero_emote = None \<or> duration zero_emote = Some 0"
    "fadeOut zero_emote = None \<or> fadeOut zero_emote = Some 0"
    "scale zero_emote = None \<or> scale zero_emote = Some 0"
    "offsetX zero_emote = None \<or> offsetX zero_emote = Some 0"
    "offsetY zero_emote = None \<or> offsetY zero_emote = Some 0"
    by (simp_all add: zero_emote_def)
  from zero_or_missing_fields_play_as_defaults
         [of zero_emote "''zero.svg''" "''A-zero''" 0 table None 0] z
  show ?thesis by blast
qed

text \<open>
  Claim C2 (cleanup when a stage throws). The \<open>catch\<close> block removes the entry of
  \<open>activeEmotes\<close> but neither removes the sprite from the scene nor destroys it. On the
  table: the texture loads and the fade-in throws. The call ends in the \<open>catch\<close> block,
  the entry is gone, and sprite \<open>0\<close> is still a child of the scene and not destroyed;
  no \<open>RemoveChild\<close> or \<open>Destroy\<close> happened.
\<close>

theorem sprite_left_behind_when_fade_in_throws:
  "fst (playback [Fulfilled (Some ''heart.svg''), Rejected] (Some ''S'') ''A'' ''heart'' table)
     = Done Caught
   \<and> activeEmotes (snd (playback [Fulfilled (Some ''heart.svg''), Rejected]
                           (Some ''S'') ''A'' ''heart'' table)) ''A-heart'' = None
   \<and> children (snd (playback [Fulfilled (Some ''heart.svg''), Rejected]
                       (Some ''S'') ''A'' ''heart'' table)) = [0]
   \<and> \<not> destroyed (sprites (snd (playback [Fulfilled (Some ''heart.svg''), Rejected]
                                   (Some ''S'') ''A'' ''heart'' table)) 0)
   \<and> trace (snd (playback [Fulfilled (Some ''heart.svg''), Rejected]
                     (Some ''S'') ''A'' ''heart'' table))
       = [LoadTexture ''modules/tokenflipper/assets/heart.svg'', AddChild 0, Animate 0 1 200,
          ConsoleError ''tokenflipper | Error playing emote:'']"
  by (simp add: playback_def playback_defs table_defs)

section \<open>Interleaved playback calls\<close>

text \<open>
  Claim C1 (at most one live sprite for a token and emote). The entry in \<open>activeEmotes\<close> is
  only made after the texture has loaded, so a second request for the same token and emote
  that arrives while the first call is still loading passes the duplicate check as well. On
  the table: two requests for the heart on token \<open>A\<close>, then both textures load. Both calls
  are fading in, the scene holds two sprites, and the map entry points to the second one.
\<close>

theorem two_sprites_when_retriggered_during_load:
  "fst (exec [Trigger (Some ''S'') ''A'' ''heart'', Trigger (Some ''S'') ''A'' ''heart'',
              Settle 0 (Fulfilled (Some ''heart.svg'')), Settle 1 (Fulfilled (Some ''heart.svg''))]
             ([], table))
     = [AwaitFadeIn ''A-heart'' 0 (default_emote ''heart'' ''Heart'' 1500),
        AwaitFadeIn ''A-heart'' 1 (default_emote ''heart'' ''Heart'' 1500)]
   \<and> children (snd (exec [Trigger (Some ''S'') ''A'' ''heart'', Trigger (Some ''S'') ''A'' ''heart'',
              Settle 0 (Fulfilled (Some ''heart.svg'')), Settle 1 (Fulfilled (Some ''heart.svg''))]
             ([], table))) = [0, 1]
   \<and> activeEmotes (snd (exec [Trigger (Some ''S'') ''A'' ''heart'', Trigger (Some ''S'') ''A'' ''heart'',
              Settle 0 (Fulfilled (Some ''heart.svg'')), Settle 1 (Fulfilled (Some ''heart.svg''))]
             ([], table))) ''A-heart'' = Some 1"
  by (simp add: exec_def playback_defs table_defs)

lemma registered_duplicate_returns:
  assumes "activeEmotes c (emoteKey tokenId emoteId) \<noteq> None"
  shows "\<exists>x. renderEmoteLocally sceneId tokenId emoteId c = (Done x, c)"
  using assms by (simp add: renderEmoteLocally_def split: option.splits)

lemma activeEmotes_animateSprite [simp]: "activeEmotes (animateSprite s v d c) = activeEmotes c"
  by (simp add: animateSprite_def)

lemma activeEmotes_animation_done [simp]: "activeEmotes (animation_done s v d c) = activeEmotes c"
  by (simp add: animation_done_def)

lemma activeEmotes_wait [simp]: "activeEmotes (wait ms c) = activeEmotes c"
  by (simp add: wait_def)

lemma activeEmotes_add_sprite [simp]:
  "activeEmotes (add_sprite k tex em tok c) = (activeEmotes c)(k \<mapsto> next_sprite c)"
  by (simp add: add_sprite_def)

lemma activeEmotes_cleanup [simp]:
  "activeEmotes (cleanup k s c) = (activeEmotes c)(k := None)"
  by (simp add: cleanup_def)

lemma activeEmotes_catch_block [simp]:
  "activeEmotes (snd (catch_block k c)) = (activeEmotes c)(k := None)"
  by (simp add: catch_block_def)

lemma in_stage_catch_block [simp]: "\<not> in_stage k' (fst (catch_block k c))"
  by (simp add: catch_block_def)

lemma registered_while_in_stage:
  "in_stage k (fst (resume (Fulfilled (Some tex)) (AwaitLoadTexture k tok em) c))
   \<and> activeEmotes (snd (resume (Fulfilled (Some tex)) (AwaitLoadTexture k tok em) c)) k
       = Some (next_sprite c)"
  by simp

lemma resume_entries:
  assumes "activeEmotes (snd (resume r p c)) k \<noteq> None"
  shows "in_stage k (fst (resume r p c))
       \<or> (activeEmotes c k \<noteq> None \<and> \<not> in_stage k p)"
proof (cases p)
  case (AwaitLoadTexture k' tok em)
  show ?thesis
  proof (cases r)
    case Rejected
    with AwaitLoadTexture assms show ?thesis by (simp split: if_splits)
  next
    case (Fulfilled v)
    with AwaitLoadTexture assms show ?thesis by (cases v) (simp_all split: if_splits)
  qed
next
  case (AwaitFadeIn k' s em)
  with assms show ?thesis by (cases r) (simp_all split: if_splits)
next
  case (AwaitHold k' s em)
  with assms show ?thesis by (cases r) (simp_all split: if_splits)
next
  case (AwaitFadeOut k' s em)
  with assms show ?thesis by (cases r) (simp_all split: if_splits)
next
  case (Done x)
  with assms show ?thesis by simp
qed

lemma activeEmotes_renderEmoteLocally [simp]:
  "activeEmotes (snd (renderEmoteLocally sceneId tokenId emoteId c)) = activeEmotes c"
  by (simp add: renderEmoteLocally_def split: option.splits)

lemma step_entries_have_calls:
  assumes "entries_have_calls st"
  shows "entries_have_calls (step a st)"
proof -
  obtain ps c where st: "st = (ps, c)" by (cases st)
  show ?thesis
  proof (cases a)
    case (Trigger sceneId tokenId emoteId)
    have "step a st = (ps @ [fst (renderEmoteLocally sceneId tokenId emoteId c)],
                       snd (renderEmoteLocally sceneId tokenId emoteId c))"
      by (simp add: st Trigger split_beta)
    with assms show ?thesis
      by (auto simp: entries_have_calls_def st)
  next
    case (Settle i r)
    show ?thesis
    proof (cases "i < length ps")
      case False
      with assms show ?thesis by (simp add: st Settle)
    next
      case True
      have eq: "step a st = (ps[i := fst (resume r (ps ! i) c)], snd (resume r (ps ! i) c))"
        using True by (simp add: st Settle split_beta)
      show ?thesis
        unfolding entries_have_calls_def eq fst_conv snd_conv
      proof (intro allI impI)
        fix k
        assume "activeEmotes (snd (resume r (ps ! i) c)) k \<noteq> None"
        from resume_entries [OF this]
        show "\<exists>p \<in> set (ps[i := fst (resume r (ps ! i) c)]). in_stage k p"
        proof
          assume "in_stage k (fst (resume r (ps ! i) c))"
          moreover have "fst (resume r (ps ! i) c) \<in> set (ps[i := fst (resume r (ps ! i) c)])"
            using True by (rule set_update_memI)
          ultimately show ?thesis by blast
        next
          assume a: "activeEmotes c k \<noteq> None \<and> \<not> in_stage k (ps ! i)"
          with assms obtain q where q: "q \<in> set ps" "in_stage k q"
            by (auto simp: entries_have_calls_def st)
          then obtain j where j: "j < length ps" "ps ! j = q"
            by (auto simp: in_set_conv_nth)
          with a q have "j \<noteq> i" by auto
          with j have "(ps[i := fst (resume r (ps ! i) c)]) ! j = q" by simp
          moreover have "j < length (ps[i := fst (resume r (ps ! i) c)])" using j by simp
          ultimately have "q \<in> set (ps[i := fst (resume r (ps ! i) c)])"
            by (metis nth_mem)
          with q show ?thesis by blast
        qed
      qed
    qed
  qed
qed

lemma exec_entries_have_calls:
  "entries_have_calls st \<Longrightarrow> entries_have_calls (exec as st)"
  unfolding exec_def
  by (induction as arbitrary: st) (simp_all add: step_entries_have_calls)

lemma no_entry_without_call:
  assumes "activeEmotes c0 = Map.empty"
    and "exec as ([], c0) = (ps, c)"
    and "\<forall>p \<in> set ps. \<not> in_stage k p"
  shows "activeEmotes c k = None"
proof -
  have "entries_have_calls ([], c0)"
    using assms(1) by (simp add: entries_have_calls_def)
  then have "entries_have_calls (exec as ([], c0))"
    by (rule exec_entries_have_calls)
  with assms(2,3) show ?thesis
    by (auto simp: entries_have_calls_def)
qed

text \<open>
  Claim C3 (no entry left behind). A call that runs alone leaves no entry for its key
  (\<open>run_leaves_no_entry\<close>), and an entry exists only while some call for its key is
  between registration and return (\<open>no_entry_without_call\<close>). It does not hold for
  every call that returns: the duplicate check comes before the texture load and the
  registration after it, so two calls for the same token and emote can both be loading. On
  the table: two requests for the heart on token \<open>A\<close>; the first texture loads, the
  second load gives no texture. The second call has returned after its failed load, and
  \<open>activeEmotes\<close> still holds the entry of the first call for that key.
\<close>

theorem entry_present_after_failed_load_in_race:
  "fst (exec [Trigger (Some ''S'') ''A'' ''heart'', Trigger (Some ''S'') ''A'' ''heart'',
              Settle 0 (Fulfilled (Some ''heart.svg'')), Settle 1 (Fulfilled None)]
             ([], table))
     = [AwaitFadeIn ''A-heart'' 0 (default_emote ''heart'' ''Heart'' 1500), Done LoadFailed]
   \<and> activeEmotes (snd (exec [Trigger (Some ''S'') ''A'' ''heart'', Trigger (Some ''S'') ''A'' ''heart'',
              Settle 0 (Fulfilled (Some ''heart.svg'')), Settle 1 (Fulfilled None)]
             ([], table))) (emoteKey ''A'' ''heart'') = Some 0"
  by (simp add: exec_def playback_defs table_defs)

section \<open>Document updates\<close>

lemma tokens_emit [simp]: "tokens (emit e c) = tokens c"
  by (simp add: emit_def)

lemma controlled_emit [simp]: "controlled (emit e c) = controlled c"
  by (simp add: emit_def)

lemma tokens_update_document:
  "tokens (update_document (Update r p v a d ez) c) =
     (tokens c)(r := (tokens c r)\<lparr>document := setProperty p v (document (tokens c r))\<rparr>)"
  by simp

lemma trace_update_document [simp]:
  "trace (update_document u c) = trace c @ [DocumentUpdate u]"
  by (cases u) simp

lemma controlled_update_document [simp]:
  "controlled (update_document u c) = controlled c"
  by (cases u) simp

lemma update_document_other:
  "update_ref u \<noteq> r \<Longrightarrow> tokens (update_document u c) r = tokens c r"
  by (cases u) simp

lemma update_document_same:
  "tokens c r = tokens c' r \<Longrightarrow> tokens (update_document u c) r = tokens (update_document u c') r"
  by (cases u, cases "update_ref u = r") simp_all

lemma isOwner_setProperty [simp]: "isOwner (setProperty p v d) = isOwner d"
  by (cases p) simp_all

lemma getProperty_setProperty [simp]:
  "getProperty (setProperty p v d) q = (if q = p then v else getProperty d q)"
  by (cases p; cases q) simp_all

lemma animating_document [simp]: "animating (t\<lparr>document := d\<rparr>) = animating t"
  by (simp add: animating_def)

declare update_document.simps [simp del]

section \<open>Flip\<close>

lemma flip_loop_tokens:
  assumes "distinct rs"
  shows "tokens (flip_loop p d rs c) r =
     (if r \<in> set rs \<and> isOwner (document (tokens c r)) \<and> \<not> animating (tokens c r)
      then (tokens c r)\<lparr>document :=
             setProperty p (- getProperty (document (tokens c r)) p) (document (tokens c r))\<rparr>
      else tokens c r)"
  using assms
proof (induction rs arbitrary: c)
  case Nil
  then show ?case by simp
next
  case (Cons a rs)
  from Cons.prems have a: "a \<notin> set rs" and d: "distinct rs" by simp_all
  note IH = Cons.IH [OF d]
  consider (denied) "\<not> isOwner (document (tokens c a))"
    | (busy) "isOwner (document (tokens c a))" "animating (tokens c a)"
    | (flip) "isOwner (document (tokens c a))" "\<not> animating (tokens c a)"
    by blast
  then show ?case
  proof cases
    case denied
    then show ?thesis using a by (auto simp: IH)
  next
    case busy
    then show ?thesis using a by (auto simp: IH)
  next
    case flip
    let ?u = "Update a p (- getProperty (document (tokens c a)) p) (0 < d) d None"
    have step: "flip_loop p d (a # rs) c = flip_loop p d rs (update_document ?u c)"
      using flip by simp
    show ?thesis
    proof (cases "r = a")
      case True
      with a flip IH [of "update_document ?u c"] show ?thesis
        unfolding step by (simp add: tokens_update_document cong: if_cong)
    next
      case False
      with IH [of "update_document ?u c"] show ?thesis
        unfolding step by (simp add: tokens_update_document cong: if_cong)
    qed
  qed
qed

lemma flip_loop_trace:
  assumes "distinct rs"
  shows "trace (flip_loop p d rs c) = trace c @ concat (map (\<lambda>r.
       if \<not> isOwner (document (tokens c r)) then [permission_warning ''flip'' (tok_name (tokens c r))]
       else if animating (tokens c r) then []
       else [DocumentUpdate (Update r p (- getProperty (document (tokens c r)) p) (0 < d) d None)]) rs)"
  using assms
proof (induction rs arbitrary: c)
  case Nil
  then show ?case by simp
next
  case (Cons a rs)
  from Cons.prems have a: "a \<notin> set rs" and d: "distinct rs" by simp_all
  note IH = Cons.IH [OF d]
  let ?ev = "\<lambda>c r.
       if \<not> isOwner (document (tokens c r)) then [permission_warning ''flip'' (tok_name (tokens c r))]
       else if animating (tokens c r) then []
       else [DocumentUpdate (Update r p (- getProperty (document (tokens c r)) p) (0 < d) d None)]"
  have same: "map (?ev c') rs = map (?ev c) rs" if "\<And>r. r \<in> set rs \<Longrightarrow> tokens c' r = tokens c r" for c'
    by (rule map_cong) (simp_all add: that)
  consider (denied) "\<not> isOwner (document (tokens c a))"
    | (busy) "isOwner (document (tokens c a))" "animating (tokens c a)"
    | (flip) "isOwner (document (tokens c a))" "\<not> animating (tokens c a)"
    by blast
  then show ?case
  proof cases
    case denied
    let ?c' = "emit (permission_warning ''flip'' (tok_name (tokens c a))) c"
    have step: "flip_loop p d (a # rs) c = flip_loop p d rs ?c'"
      using denied by simp
    have m: "map (?ev ?c') rs = map (?ev c) rs" by (rule same) simp
    have "trace (flip_loop p d (a # rs) c) = trace ?c' @ concat (map (?ev ?c') rs)"
      unfolding step by (rule IH)
    also have "\<dots> = trace ?c' @ concat (map (?ev c) rs)" by (simp only: m)
    finally show ?thesis using denied by simp
  next
    case busy
    have step: "flip_loop p d (a # rs) c = flip_loop p d rs c"
      using busy by simp
    have "trace (flip_loop p d (a # rs) c) = trace c @ concat (map (?ev c) rs)"
      unfolding step by (rule IH)
    then show ?thesis using busy by simp
  next
    case flip
    let ?u = "Update a p (- getProperty (document (tokens c a)) p) (0 < d) d None"
    let ?c' = "update_document ?u c"
    have step: "flip_loop p d (a # rs) c = flip_loop p d rs ?c'"
      using flip by simp
    have m: "map (?ev ?c') rs = map (?ev c) rs"
      using a by (intro same) (auto simp: tokens_update_document)
    have "trace (flip_loop p d (a # rs) c) = trace ?c' @ concat (map (?ev ?c') rs)"
      unfolding step by (rule IH)
    also have "\<dots> = trace ?c' @ concat (map (?ev c) rs)" by (simp only: m)
    finally show ?thesis using flip by simp
  qed
qed

lemma flip_loop_controlled [simp]: "controlled (flip_loop p d rs c) = controlled c"
  by (induction rs arbitrary: c) simp_all

lemma flipSelectedTokens_controlled [simp]:
  "controlled (flipSelectedTokens direction c) = controlled c"
  by (simp add: flipSelectedTokens_def)

lemma flipSelectedTokens_tokens:
  assumes "distinct (controlled c)"
  shows "tokens (flipSelectedTokens direction c) r =
     (if r \<in> set (controlled c) \<and> isOwner (document (tokens c r)) \<and> \<not> animating (tokens c r)
      then (tokens c r)\<lparr>document :=
             setProperty (if direction = ''vertical'' then ScaleY else ScaleX)
               (- getProperty (document (tokens c r))
                    (if direction = ''vertical'' then ScaleY else ScaleX))
               (document (tokens c r))\<rparr>
      else tokens c r)"
proof (cases "controlled c = []")
  case True
  then show ?thesis by (simp add: flipSelectedTokens_def)
next
  case False
  then show ?thesis
    using assms by (simp only: flipSelectedTokens_def if_False flip_loop_tokens)
qed

text \<open>
  Claim C6 (flip is an involution). For a selected token that the user owns and that is not
  animating, one flip multiplies the scale factor of the chosen direction by \<open>-1\<close> and
  leaves the other properties alone. A second flip, in any later state \<open>c2\<close> in which the
  token is still selected, not animating, and has the document the first flip left, gives
  the original scale factor back. Horizontal flips act on \<open>texture.scaleX\<close>, vertical
  ones on \<open>texture.scaleY\<close>.
\<close>

theorem flip_is_involutive:
  assumes "r \<in> set (controlled c)" and "distinct (controlled c)"
    and "isOwner (document (tokens c r))" and "\<not> animating (tokens c r)"
    and "c1 = flipSelectedTokens direction c"
    and "r \<in> set (controlled c2)" and "distinct (controlled c2)"
    and "document (tokens c2 r) = document (tokens c1 r)" and "\<not> animating (tokens c2 r)"
    and "c3 = flipSelectedTokens direction c2"
    and "p = (if direction = ''vertical'' then ScaleY else ScaleX)"
  shows "getProperty (document (tokens c1 r)) p = getProperty (document (tokens c r)) p * - 1
       \<and> getProperty (document (tokens c3 r)) p = getProperty (document (tokens c r)) p
       \<and> (\<forall>q. q \<noteq> p \<longrightarrow> getProperty (document (tokens c1 r)) q = getProperty (document (tokens c r)) q
                        \<and> getProperty (document (tokens c3 r)) q = getProperty (document (tokens c r)) q)"
proof -
  have t1: "tokens c1 r = (tokens c r)\<lparr>document :=
             setProperty p (- getProperty (document (tokens c r)) p) (document (tokens c r))\<rparr>"
    unfolding assms(5,11) using assms(1,3,4) by (simp add: flipSelectedTokens_tokens [OF assms(2)])
  have d1: "document (tokens c1 r) =
      setProperty p (- getProperty (document (tokens c r)) p) (document (tokens c r))"
    by (simp add: t1)
  have o2: "isOwner (document (tokens c2 r))"
    using assms(3) by (simp add: assms(8) d1)
  have t3: "tokens c3 r = (tokens c2 r)\<lparr>document :=
             setProperty p (- getProperty (document (tokens c2 r)) p) (document (tokens c2 r))\<rparr>"
    unfolding assms(10,11) using assms(6,9) o2 by (simp add: flipSelectedTokens_tokens [OF assms(7)])
  have d3: "document (tokens c3 r) =
      setProperty p (- getProperty (document (tokens c2 r)) p) (document (tokens c2 r))"
    by (simp add: t3)
  show ?thesis
    by (simp add: d3 assms(8) d1)
qed

lemma table_facts:
  "controlled table = [0, 1]" "tokens table 0 = token_A" "tokens table 1 = token_B"
  "tokens table (Suc 0) = token_B"
  "scene_id table = Some ''S''" "placeables table = [0, 1]"
  "emotes_setting table = Some getDefaultEmotes"
  "flipDuration table = 200" "bounceHeight table = 20" "bounceDuration table = 150"
  "bounceCount table = 3" "activeEmotes table = Map.empty" "next_sprite table = 0"
  "children table = []" "trace table = []"
  by (simp_all add: table_def)

lemma token_A_facts:
  "tok_id token_A = ''A''" "tok_name token_A = ''Alice''" "isOwner (document token_A)"
  "\<not> animating token_A" "texture_scaleX (document token_A) = 3 / 4" "doc_y (document token_A) = 200"
  "tok_x token_A = 100" "tok_y token_A = 200" "tok_w token_A = 50"
  by (simp_all add: token_A_def animating_def)

lemma token_B_facts:
  "tok_id token_B = ''B''" "tok_name token_B = ''Bob''" "\<not> isOwner (document token_B)"
  "\<not> animating token_B" "texture_scaleX (document token_B) = 1" "doc_y (document token_B) = 400"
  by (simp_all add: token_B_def animating_def)

theorem flip_is_involutive_witness:
  "texture_scaleX (document (tokens table 0)) = 3 / 4
   \<and> texture_scaleX (document (tokens (flipSelectedTokens ''horizontal'' table) 0)) = - (3 / 4)
   \<and> texture_scaleX (document (tokens
        (flipSelectedTokens ''horizontal'' (flipSelectedTokens ''horizontal'' table)) 0)) = 3 / 4"
proof -
  let ?c1 = "flipSelectedTokens ''horizontal'' table"
  have h1: "0 \<in> set (controlled table)" and h2: "distinct (controlled table)"
    and h3: "isOwner (document (tokens table 0))" and h4: "\<not> animating (tokens table 0)"
    and s: "texture_scaleX (document (tokens table 0)) = 3 / 4"
    by (simp_all add: table_facts token_A_facts)
  have h6: "0 \<in> set (controlled ?c1)" and h7: "distinct (controlled ?c1)"
    by (simp_all add: table_facts)
  have h9: "\<not> animating (tokens ?c1 0)"
    using h4 by (simp add: flipSelectedTokens_tokens [OF h2])
  from flip_is_involutive [OF h1 h2 h3 h4 refl h6 h7 refl h9 refl refl]
  show ?thesis using s by simp
qed

section \<open>Bounce\<close>

declare bounce_loop.simps [simp del]

lemma cycles_snoc: "concat (replicate (Suc n) xs) = concat (replicate n xs) @ xs"
  by (induction n) simp_all

lemma bounce_loop_cycles:
  "bounce_loop i count r y0 h d =
     concat (replicate (nat (count - i))
       [Update r PosY (y0 - h) True (d / 2) (Some EaseOutQuad),
        Update r PosY y0 True (d / 2) (Some EaseInQuad)])"
proof (induction i count r y0 h d rule: bounce_loop.induct)
  case (1 i count r y0 h d)
  show ?case
  proof (cases "i < count")
    case True
    then have "nat (count - i) = Suc (nat (count - (i + 1)))" by simp
    with True "1" show ?thesis
      by (subst bounce_loop.simps) simp
  next
    case False
    then show ?thesis by (subst bounce_loop.simps) simp
  qed
qed

lemma land_Nil [simp]: "land [] c = c"
  by (simp add: land_def)

lemma land_Cons [simp]: "land (u # us) c = land us (update_document u c)"
  by (simp add: land_def)

lemma land_append: "land (us @ vs) c = land vs (land us c)"
  by (simp add: land_def)

lemma land_PosY:
  "tokens (land [Update r PosY y a d e] c) r =
     (tokens c r)\<lparr>document := (document (tokens c r))\<lparr>doc_y := y\<rparr>\<rparr>"
  by (simp add: tokens_update_document)

lemma land_cycle:
  "tokens (land [Update r PosY y1 a1 d1 e1, Update r PosY y0 a2 d2 e2] c) r =
     (tokens c r)\<lparr>document := (document (tokens c r))\<lparr>doc_y := y0\<rparr>\<rparr>"
  by (simp add: tokens_update_document)

lemma land_cycles:
  "tokens (land (concat (replicate n [Update r PosY y1 a1 d1 e1, Update r PosY y0 a2 d2 e2])) c) r =
     (if n = 0 then tokens c r
      else (tokens c r)\<lparr>document := (document (tokens c r))\<lparr>doc_y := y0\<rparr>\<rparr>)"
proof (induction n)
  case 0
  then show ?case by simp
next
  case (Suc n)
  let ?cyc = "[Update r PosY y1 a1 d1 e1, Update r PosY y0 a2 d2 e2]"
  have "concat (replicate (Suc n) ?cyc) = concat (replicate n ?cyc) @ ?cyc"
    by (rule cycles_snoc)
  then have "tokens (land (concat (replicate (Suc n) ?cyc)) c) r
      = tokens (land ?cyc (land (concat (replicate n ?cyc)) c)) r"
    by (simp only: land_append)
  also have "\<dots> = (tokens (land (concat (replicate n ?cyc)) c) r)
      \<lparr>document := (document (tokens (land (concat (replicate n ?cyc)) c) r))\<lparr>doc_y := y0\<rparr>\<rparr>"
    by (rule land_cycle)
  finally show ?case
    by (simp only: Suc) simp
qed

lemma land_filter:
  "tokens c r = tokens c' r \<Longrightarrow>
   tokens (land us c) r = tokens (land (filter (\<lambda>u. update_ref u = r) us) c') r"
proof (induction us arbitrary: c c')
  case Nil
  then show ?case by simp
next
  case (Cons u us)
  show ?case
  proof (cases "update_ref u = r")
    case True
    have "tokens (update_document u c) r = tokens (update_document u c') r"
      using Cons.prems by (rule update_document_same)
    from Cons.IH [OF this] True show ?thesis by simp
  next
    case False
    then have "tokens (update_document u c) r = tokens c' r"
      using Cons.prems by (simp add: update_document_other)
    from Cons.IH [OF this] False show ?thesis by simp
  qed
qed

lemma set_cycles: "set (concat (replicate n xs)) \<subseteq> set xs"
  by (induction n) simp_all

lemma bounce_refs:
  assumes "u \<in> set (doBounceAnimation c r h d n)"
  shows "update_ref u = r"
proof -
  let ?cyc = "[Update r PosY (doc_y (document (tokens c r)) - h) True (d / 2) (Some EaseOutQuad),
               Update r PosY (doc_y (document (tokens c r))) True (d / 2) (Some EaseInQuad)]"
  from assms have "u \<in> set (concat (replicate (nat (n - 0)) ?cyc))"
    by (simp only: doBounceAnimation_def bounce_loop_cycles)
  then have "u \<in> set ?cyc"
    by (rule subsetD [OF set_cycles])
  then show ?thesis by auto
qed

lemma land_interleaved:
  assumes "zs \<in> shuffles xs ys"
    and "\<forall>u \<in> set xs. update_ref u = r" and "\<forall>u \<in> set ys. update_ref u \<noteq> r"
  shows "tokens (land zs c) r = tokens (land xs c) r"
proof -
  have fx: "filter (\<lambda>u. update_ref u = r) xs = xs"
    using assms(2) by (simp add: filter_id_conv)
  have fy: "filter (\<lambda>u. update_ref u = r) ys = []"
    using assms(3) by (simp add: filter_empty_conv)
  from assms(1) have "filter (\<lambda>u. update_ref u = r) zs
      \<in> filter (\<lambda>u. update_ref u = r) ` shuffles xs ys"
    by (rule imageI)
  then have "filter (\<lambda>u. update_ref u = r) zs = xs"
    by (simp only: filter_shuffles fx fy shuffles.simps singleton_iff)
  moreover have "tokens (land zs c) r = tokens (land (filter (\<lambda>u. update_ref u = r) zs) c) r"
    by (rule land_filter) (rule refl)
  ultimately show ?thesis by (simp only:)
qed

lemma cycles_split:
  "k \<le> n \<Longrightarrow> concat (replicate n xs) = concat (replicate k xs) @ concat (replicate (n - k) xs)"
  by (metis concat_append le_add_diff_inverse replicate_add)

lemma length_cycles: "length (concat (replicate k [u, d])) = 2 * k"
  by (induction k) simp_all

lemma doBounceAnimation_emit [simp]:
  "doBounceAnimation (emit e c) r h d n = doBounceAnimation c r h d n"
  by (simp add: doBounceAnimation_def)

lemma bounce_select_loop_fst:
  "fst (bounce_select_loop h d n rs c) =
     map (\<lambda>r. doBounceAnimation c r h d n)
        (filter (\<lambda>r. isOwner (document (tokens c r)) \<and> \<not> animating (tokens c r)) rs)"
proof (induction rs arbitrary: c)
  case Nil
  then show ?case by simp
next
  case (Cons a rs)
  then show ?case by (simp add: split_beta)
qed

lemma bounce_select_loop_snd:
  "snd (bounce_select_loop h d n rs c) =
     c\<lparr>trace := trace c @ map (\<lambda>r. permission_warning ''bounce'' (tok_name (tokens c r)))
                            (filter (\<lambda>r. \<not> isOwner (document (tokens c r))) rs)\<rparr>"
proof (induction rs arbitrary: c)
  case Nil
  then show ?case by simp
next
  case (Cons a rs)
  show ?case
  proof (cases "isOwner (document (tokens c a))")
    case True
    then show ?thesis by (simp add: Cons split_beta)
  next
    case False
    then show ?thesis by (simp add: Cons) (simp add: emit_def)
  qed
qed

lemma cycles_Suc:
  "m = Suc j \<Longrightarrow> concat (replicate m [u, d]) = u # d # concat (replicate j [u, d])"
  by simp

text \<open>
  Claim C7 (bounce). For a count of at least zero, \<open>doBounceAnimation\<close> awaits exactly
  \<open>count\<close> cycles of two updates, up to \<open>y0 - height\<close> with \<open>easeOutQuad\<close> and
  back down to \<open>y0\<close> with \<open>easeInQuad\<close>, one after the other. After the up half of
  each cycle \<open>y\<close> is \<open>y0 - height\<close>, after each cycle and at the end it is \<open>y0\<close>.
  The updates of the bounce of another token may land in between in any order: each token
  ends as if its own bounce had run alone. With two owned, idle tokens selected,
  \<open>bounceSelectedTokens\<close> starts exactly these two bounces.
\<close>

theorem bounce_cycles_return_to_original_y:
  assumes "0 \<le> count"
    and "y0 = doc_y (document (tokens c r))"
    and "up = Update r PosY (y0 - height) True (dur / 2) (Some EaseOutQuad)"
    and "down = Update r PosY y0 True (dur / 2) (Some EaseInQuad)"
    and "steps = doBounceAnimation c r height dur count"
  shows "steps = concat (replicate (nat count) [up, down])
       \<and> update_easing up \<noteq> update_easing down
       \<and> (\<forall>k < nat count.
             doc_y (document (tokens (land (take (2 * k + 1) steps) c) r)) = y0 - height
           \<and> doc_y (document (tokens (land (take (2 * k + 2) steps) c) r)) = y0)
       \<and> doc_y (document (tokens (land steps c) r)) = y0
       \<and> (\<forall>r' height' dur' count' zs.
             r' \<noteq> r \<and> zs \<in> shuffles steps (doBounceAnimation c r' height' dur' count') \<longrightarrow>
               tokens (land zs c) r = tokens (land steps c) r
             \<and> tokens (land zs c) r' = tokens (land (doBounceAnimation c r' height' dur' count') c) r')
       \<and> (\<forall>r'. r' \<noteq> r \<and> controlled c = [r, r']
             \<and> isOwner (document (tokens c r)) \<and> \<not> animating (tokens c r)
             \<and> isOwner (document (tokens c r')) \<and> \<not> animating (tokens c r') \<longrightarrow>
               fst (bounceSelectedTokens c) =
                 [doBounceAnimation c r (bounceHeight c) (bounceDuration c) (bounceCount c),
                  doBounceAnimation c r' (bounceHeight c) (bounceDuration c) (bounceCount c)])"
proof -
  let ?n = "nat count"
  let ?cyc = "[up, down]"
  have steps: "steps = concat (replicate ?n ?cyc)"
    by (simp only: assms(2-5) doBounceAnimation_def bounce_loop_cycles diff_0_right)
  have easing: "update_easing up \<noteq> update_easing down"
    by (simp add: assms(3,4))
  have cycles: "doc_y (document (tokens (land (concat (replicate k ?cyc)) c) r)) = y0" for k
    unfolding assms(3,4) by (simp add: land_cycles assms(2))
  have final: "doc_y (document (tokens (land steps c) r)) = y0"
    unfolding steps by (rule cycles)
  have mid: "doc_y (document (tokens (land (take (2 * k + 1) steps) c) r)) = y0 - height
           \<and> doc_y (document (tokens (land (take (2 * k + 2) steps) c) r)) = y0"
    if "k < ?n" for k
  proof -
    from that have "steps = concat (replicate k ?cyc) @ concat (replicate (?n - k) ?cyc)"
      unfolding steps by (intro cycles_split) simp
    moreover from that have "?n - k = Suc (?n - k - 1)" by simp
    then have "concat (replicate (?n - k) ?cyc) = up # down # concat (replicate (?n - k - 1) ?cyc)"
      by (rule cycles_Suc)
    ultimately have split: "steps = concat (replicate k ?cyc) @ up # down
         # concat (replicate (?n - k - 1) ?cyc)"
      by (simp only:)
    have t1: "take (2 * k + 1) steps = concat (replicate k ?cyc) @ [up]"
      by (subst split) (simp add: length_cycles)
    have t2: "take (2 * k + 2) steps = concat (replicate k ?cyc) @ [up, down]"
      by (subst split) (simp add: length_cycles)
    have one: "doc_y (document (tokens (land [up] c') r)) = y0 - height" for c'
      unfolding assms(3) by (simp add: tokens_update_document)
    have two: "doc_y (document (tokens (land [up, down] c') r)) = y0" for c'
      unfolding assms(3,4) by (simp add: tokens_update_document)
    show ?thesis
      unfolding t1 t2 land_append by (intro conjI one two)
  qed
  have indep: "tokens (land zs c) r = tokens (land steps c) r
             \<and> tokens (land zs c) r' = tokens (land (doBounceAnimation c r' height' dur' count') c) r'"
    if "r' \<noteq> r" and "zs \<in> shuffles steps (doBounceAnimation c r' height' dur' count')"
    for r' height' dur' count' zs
  proof
    have mine: "\<forall>u \<in> set steps. update_ref u = r"
      unfolding assms(5) by (blast dest: bounce_refs)
    have theirs: "\<forall>u \<in> set (doBounceAnimation c r' height' dur' count'). update_ref u = r'"
      by (blast dest: bounce_refs)
    from theirs that(1) have theirs': "\<forall>u \<in> set (doBounceAnimation c r' height' dur' count'). update_ref u \<noteq> r"
      by simp
    from mine that(1) have mine': "\<forall>u \<in> set steps. update_ref u \<noteq> r'"
      by auto
    show "tokens (land zs c) r = tokens (land steps c) r"
      using that(2) mine theirs' by (rule land_interleaved)
    from that(2) have "zs \<in> shuffles (doBounceAnimation c r' height' dur' count') steps"
      by (simp only: shuffles_commutes)
    then show "tokens (land zs c) r' = tokens (land (doBounceAnimation c r' height' dur' count') c) r'"
      using theirs mine' by (rule land_interleaved)
  qed
  have sel: "fst (bounceSelectedTokens c) =
                 [doBounceAnimation c r (bounceHeight c) (bounceDuration c) (bounceCount c),
                  doBounceAnimation c r' (bounceHeight c) (bounceDuration c) (bounceCount c)]"
    if "controlled c = [r, r']" "isOwner (document (tokens c r))" "\<not> animating (tokens c r)"
      "isOwner (document (tokens c r'))" "\<not> animating (tokens c r')" for r'
    using that by (simp add: bounceSelectedTokens_def bounce_select_loop_fst)
  show ?thesis
  proof (intro conjI allI impI)
    show "steps = concat (replicate (nat count) [up, down])" by (rule steps)
    show "update_easing up \<noteq> update_easing down" by (rule easing)
    show "doc_y (document (tokens (land steps c) r)) = y0" by (rule final)
  next
    fix k assume "k < nat count"
    from mid [OF this]
    show "doc_y (document (tokens (land (take (2 * k + 1) steps) c) r)) = y0 - height"
      and "doc_y (document (tokens (land (take (2 * k + 2) steps) c) r)) = y0"
      by (rule conjunct1, rule conjunct2)
  next
    fix r' height' dur' count' zs
    assume a: "r' \<noteq> r \<and> zs \<in> shuffles steps (doBounceAnimation c r' height' dur' count')"
    then have "r' \<noteq> r" and "zs \<in> shuffles steps (doBounceAnimation c r' height' dur' count')"
      by (rule conjunct1, rule conjunct2)
    from indep [OF this]
    show "tokens (land zs c) r = tokens (land steps c) r"
      and "tokens (land zs c) r' = tokens (land (doBounceAnimation c r' height' dur' count') c) r'"
      by (rule conjunct1, rule conjunct2)
  next
    fix r'
    assume "r' \<noteq> r \<and> controlled c = [r, r']
             \<and> isOwner (document (tokens c r)) \<and> \<not> animating (tokens c r)
             \<and> isOwner (document (tokens c r')) \<and> \<not> animating (tokens c r')"
    then show "fst (bounceSelectedTokens c) =
                 [doBounceAnimation c r (bounceHeight c) (bounceDuration c) (bounceCount c),
                  doBounceAnimation c r' (bounceHeight c) (bounceDuration c) (bounceCount c)]"
      by (intro sel) simp_all
  qed
qed

lemma party_facts:
  "controlled party = [0, 1]" "tokens party 0 = token_A"
  "tokens party 1 = token_B\<lparr>document := (document token_B)\<lparr>isOwner := True\<rparr>\<rparr>"
  "tokens party (Suc 0) = token_B\<lparr>document := (document token_B)\<lparr>isOwner := True\<rparr>\<rparr>"
  "bounceHeight party = 20" "bounceDuration party = 150" "bounceCount party = 3"
  by (simp_all add: party_def table_def)

theorem bounce_cycles_return_to_original_y_witness:
  "doBounceAnimation party 0 20 150 3 =
     [Update 0 PosY 180 True 75 (Some EaseOutQuad), Update 0 PosY 200 True 75 (Some EaseInQuad),
      Update 0 PosY 180 True 75 (Some EaseOutQuad), Update 0 PosY 200 True 75 (Some EaseInQuad),
      Update 0 PosY 180 True 75 (Some EaseOutQuad), Update 0 PosY 200 True 75 (Some EaseInQuad)]
   \<and> doc_y (document (tokens (land (doBounceAnimation party 0 20 150 3) party) 0)) = 200
   \<and> doc_y (document (tokens (land (splice (doBounceAnimation party 0 20 150 3)
                                            (doBounceAnimation party 1 20 150 3)) party) 0)) = 200
   \<and> fst (bounceSelectedTokens party) =
       [doBounceAnimation party 0 20 150 3, doBounceAnimation party 1 20 150 3]"
proof -
  have y: "doc_y (document (tokens party 0)) = 200"
    by (simp add: party_facts token_A_facts)
  have sel: "(1::nat) \<noteq> 0 \<and> controlled party = [0, 1]
      \<and> isOwner (document (tokens party 0)) \<and> \<not> animating (tokens party 0)
      \<and> isOwner (document (tokens party 1)) \<and> \<not> animating (tokens party 1)"
    by (simp add: party_facts token_A_facts token_B_facts)
  have sh: "(1::nat) \<noteq> 0 \<and> splice (doBounceAnimation party 0 20 150 3) (doBounceAnimation party 1 20 150 3)
          \<in> shuffles (doBounceAnimation party 0 20 150 3) (doBounceAnimation party 1 20 150 3)"
    by simp
  have h0: "(0::int) \<le> 3" by simp
  note F = bounce_cycles_return_to_original_y [of 3 _ party 0 _ 20 150, OF h0 refl refl refl refl]
  from F have F1: "doBounceAnimation party 0 20 150 3 = concat (replicate (nat 3)
        [Update 0 PosY (doc_y (document (tokens party 0)) - 20) True (150 / 2) (Some EaseOutQuad),
         Update 0 PosY (doc_y (document (tokens party 0))) True (150 / 2) (Some EaseInQuad)])"
    by (rule conjunct1)
  from F have F2: "doc_y (document (tokens (land (doBounceAnimation party 0 20 150 3) party) 0))
       = doc_y (document (tokens party 0))"
    by (elim conjE)
  from F have F3': "\<forall>r' height' dur' count' zs.
             r' \<noteq> 0 \<and> zs \<in> shuffles (doBounceAnimation party 0 20 150 3) (doBounceAnimation party r' height' dur' count') \<longrightarrow>
               tokens (land zs party) 0 = tokens (land (doBounceAnimation party 0 20 150 3) party) 0
             \<and> tokens (land zs party) r' = tokens (land (doBounceAnimation party r' height' dur' count') party) r'"
    by (elim conjE)
  from F have F4': "\<forall>r'. r' \<noteq> 0 \<and> controlled party = [0, r']
             \<and> isOwner (document (tokens party 0)) \<and> \<not> animating (tokens party 0)
             \<and> isOwner (document (tokens party r')) \<and> \<not> animating (tokens party r') \<longrightarrow>
               fst (bounceSelectedTokens party) =
                 [doBounceAnimation party 0 (bounceHeight party) (bounceDuration party) (bounceCount party),
                  doBounceAnimation party r' (bounceHeight party) (bounceDuration party) (bounceCount party)]"
    by (elim conjE)
  from F3' [rule_format, OF sh]
  have F3: "tokens (land (splice (doBounceAnimation party 0 20 150 3) (doBounceAnimation party 1 20 150 3)) party) 0
       = tokens (land (doBounceAnimation party 0 20 150 3) party) 0"
    by (rule conjunct1)
  note F4 = F4' [rule_format, OF sel]
  have a: "doBounceAnimation party 0 20 150 3 =
     [Update 0 PosY 180 True 75 (Some EaseOutQuad), Update 0 PosY 200 True 75 (Some EaseInQuad),
      Update 0 PosY 180 True 75 (Some EaseOutQuad), Update 0 PosY 200 True 75 (Some EaseInQuad),
      Update 0 PosY 180 True 75 (Some EaseOutQuad), Update 0 PosY 200 True 75 (Some EaseInQuad)]"
    using F1 by (simp add: y numeral_3_eq_3)
  have b: "doc_y (document (tokens (land (doBounceAnimation party 0 20 150 3) party) 0)) = 200"
    using F2 by (simp only: y)
  have c: "doc_y (document (tokens (land (splice (doBounceAnimation party 0 20 150 3)
                                            (doBounceAnimation party 1 20 150 3)) party) 0)) = 200"
    by (simp only: F3 b)
  have d: "fst (bounceSelectedTokens party) =
       [doBounceAnimation party 0 20 150 3, doBounceAnimation party 1 20 150 3]"
    using F4 by (simp only: party_facts)
  from a b c d show ?thesis by (intro conjI)
qed

section \<open>Selections with tokens the user does not own\<close>

lemma canvas_tokens_get_trace [simp]:
  "canvas_tokens_get (c\<lparr>trace := t\<rparr>) tokenId = canvas_tokens_get c tokenId"
  by (simp add: canvas_tokens_get_def)

lemma settings_emotes_trace [simp]: "settings_emotes (c\<lparr>trace := t\<rparr>) = settings_emotes c"
  by (simp add: settings_emotes_def)

lemma render_started:
  assumes "scene_id c = sceneId"
    and "find (\<lambda>e. emote_id e = emoteId) (settings_emotes c) = Some em"
  shows "renderEmoteLocally sceneId tokenId emoteId (c\<lparr>trace := t\<rparr>) =
    (fst (renderEmoteLocally sceneId tokenId emoteId c),
     c\<lparr>trace := t @ (if canvas_tokens_get c tokenId \<noteq> None
                           \<and> activeEmotes c (emoteKey tokenId emoteId) = None
                        then [LoadTexture (emote_image em)] else [])\<rparr>)"
proof (cases "canvas_tokens_get c tokenId")
  case None
  then show ?thesis using assms by (simp add: renderEmoteLocally_def)
next
  case (Some tok)
  show ?thesis
  proof (cases "activeEmotes c (emoteKey tokenId emoteId)")
    case None
    with Some assms show ?thesis by (simp add: renderEmoteLocally_def emit_def)
  next
    case (Some s)
    with \<open>canvas_tokens_get c tokenId = Some tok\<close> assms show ?thesis
      by (simp add: renderEmoteLocally_def)
  qed
qed

lemma emote_loop_eq:
  assumes "scene_id c \<noteq> None"
    and "find (\<lambda>e. emote_id e = emoteId) (settings_emotes c) = Some em"
  shows "emote_loop emoteId rs (c\<lparr>trace := t\<rparr>) =
    (None,
     map (\<lambda>r. fst (renderEmoteLocally (scene_id c) (tok_id (tokens c r)) emoteId c))
       (filter (\<lambda>r. isOwner (document (tokens c r))) rs),
     c\<lparr>trace := t @ concat (map (\<lambda>r.
         if \<not> isOwner (document (tokens c r))
         then [permission_warning ''emote with'' (tok_name (tokens c r))]
         else (if canvas_tokens_get c (tok_id (tokens c r)) \<noteq> None
                   \<and> activeEmotes c (emoteKey (tok_id (tokens c r)) emoteId) = None
               then [LoadTexture (emote_image em)] else [])
              @ [SocketEmit (scene_id c) (tok_id (tokens c r)) emoteId]) rs)\<rparr>)"
proof (induction rs arbitrary: t)
  case Nil
  then show ?case by simp
next
  case (Cons a rs)
  show ?case
  proof (cases "isOwner (document (tokens c a))")
    case False
    have step: "emote_loop emoteId (a # rs) (c\<lparr>trace := t\<rparr>) =
        emote_loop emoteId rs
          (c\<lparr>trace := t @ [permission_warning ''emote with'' (tok_name (tokens c a))]\<rparr>)"
      using False by (simp add: emit_def)
    show ?thesis unfolding step Cons using False by simp
  next
    case True
    let ?started = "if canvas_tokens_get c (tok_id (tokens c a)) \<noteq> None
                   \<and> activeEmotes c (emoteKey (tok_id (tokens c a)) emoteId) = None
               then [LoadTexture (emote_image em)] else []"
    let ?t' = "(t @ ?started) @ [SocketEmit (scene_id c) (tok_id (tokens c a)) emoteId]"
    have r: "renderEmoteLocally (scene_id c) (tok_id (tokens c a)) emoteId (c\<lparr>trace := t\<rparr>) =
        (fst (renderEmoteLocally (scene_id c) (tok_id (tokens c a)) emoteId c),
         c\<lparr>trace := t @ ?started\<rparr>)"
      using assms(2) by (intro render_started) simp_all
    have step: "emote_loop emoteId (a # rs) (c\<lparr>trace := t\<rparr>) =
        (case emote_loop emoteId rs (c\<lparr>trace := ?t'\<rparr>) of
           (err, ps, c2) \<Rightarrow>
             (err, fst (renderEmoteLocally (scene_id c) (tok_id (tokens c a)) emoteId c) # ps, c2))"
    proof -
      from assms(1) obtain sid where sid: "scene_id c = Some sid" by auto
      have "scene_id (c\<lparr>trace := t\<rparr>) \<noteq> None" using sid by simp
      with True show ?thesis
        by (simp add: r emit_def del: append_assoc not_None_eq)
    qed
    show ?thesis unfolding step Cons using True by simp
  qed
qed

text \<open>
  Claim C8 (a token the user does not own is skipped, the others are processed). On a
  selection without repeated tokens each of the three actions treats every selected token
  by that token's own state alone, in selection order. Flip: a token that is not owned gets
  one warning and keeps its document; an owned, idle token gets one update that negates its
  scale factor; no token outside the selection changes. Bounce: one warning for each token
  that is not owned, one started animation for each owned, idle token. Emote (with a scene
  viewed and the emote configured): one warning for each token that is not owned; for each
  owned token one call of \<open>renderEmoteLocally\<close> and one socket message.
\<close>

theorem non_owned_tokens_skipped_others_processed:
  assumes "controlled c \<noteq> []" and "distinct (controlled c)"
    and "owned = (\<lambda>r. isOwner (document (tokens c r)))"
    and "busy = (\<lambda>r. animating (tokens c r))"
    and "name = (\<lambda>r. tok_name (tokens c r))"
    and "p = (if direction = ''vertical'' then ScaleY else ScaleX)"
  shows "trace (flipSelectedTokens direction c) = trace c @ concat (map (\<lambda>r.
            if \<not> owned r then [permission_warning ''flip'' (name r)]
            else if busy r then []
            else [DocumentUpdate (Update r p (- getProperty (document (tokens c r)) p)
                    (0 < flipDuration c) (flipDuration c) None)]) (controlled c))
       \<and> (\<forall>r. tokens (flipSelectedTokens direction c) r =
            (if r \<in> set (controlled c) \<and> owned r \<and> \<not> busy r
             then (tokens c r)\<lparr>document :=
                    setProperty p (- getProperty (document (tokens c r)) p) (document (tokens c r))\<rparr>
             else tokens c r))
       \<and> bounceSelectedTokens c =
           (map (\<lambda>r. doBounceAnimation c r (bounceHeight c) (bounceDuration c) (bounceCount c))
              (filter (\<lambda>r. owned r \<and> \<not> busy r) (controlled c)),
            c\<lparr>trace := trace c @ map (\<lambda>r. permission_warning ''bounce'' (name r))
                                  (filter (\<lambda>r. \<not> owned r) (controlled c))\<rparr>)
       \<and> (\<forall>em. scene_id c \<noteq> None
              \<and> find (\<lambda>e. emote_id e = emoteId) (settings_emotes c) = Some em \<longrightarrow>
            playEmote emoteId c =
              (None,
               map (\<lambda>r. fst (renderEmoteLocally (scene_id c) (tok_id (tokens c r)) emoteId c))
                 (filter owned (controlled c)),
               c\<lparr>trace := trace c @ concat (map (\<lambda>r.
                   if \<not> owned r then [permission_warning ''emote with'' (name r)]
                   else (if canvas_tokens_get c (tok_id (tokens c r)) \<noteq> None
                             \<and> activeEmotes c (emoteKey (tok_id (tokens c r)) emoteId) = None
                         then [LoadTexture (emote_image em)] else [])
                        @ [SocketEmit (scene_id c) (tok_id (tokens c r)) emoteId])
                 (controlled c))\<rparr>))"
proof (intro conjI allI impI)
  have "flipSelectedTokens direction c = flip_loop p (flipDuration c) (controlled c) c"
    using assms(1) by (simp only: flipSelectedTokens_def assms(6) if_False)
  then show "trace (flipSelectedTokens direction c) = trace c @ concat (map (\<lambda>r.
            if \<not> owned r then [permission_warning ''flip'' (name r)]
            else if busy r then []
            else [DocumentUpdate (Update r p (- getProperty (document (tokens c r)) p)
                    (0 < flipDuration c) (flipDuration c) None)]) (controlled c))"
    unfolding assms(3-5) by (simp only: flip_loop_trace [OF assms(2)])
next
  fix r
  show "tokens (flipSelectedTokens direction c) r =
            (if r \<in> set (controlled c) \<and> owned r \<and> \<not> busy r
             then (tokens c r)\<lparr>document :=
                    setProperty p (- getProperty (document (tokens c r)) p) (document (tokens c r))\<rparr>
             else tokens c r)"
    unfolding assms(3-6) by (rule flipSelectedTokens_tokens [OF assms(2)])
next
  have "bounceSelectedTokens c =
      bounce_select_loop (bounceHeight c) (bounceDuration c) (bounceCount c) (controlled c) c"
    using assms(1) by (simp only: bounceSelectedTokens_def if_False)
  then show "bounceSelectedTokens c =
           (map (\<lambda>r. doBounceAnimation c r (bounceHeight c) (bounceDuration c) (bounceCount c))
              (filter (\<lambda>r. owned r \<and> \<not> busy r) (controlled c)),
            c\<lparr>trace := trace c @ map (\<lambda>r. permission_warning ''bounce'' (name r))
                                  (filter (\<lambda>r. \<not> owned r) (controlled c))\<rparr>)"
    unfolding assms(3-5)
    by (simp only: prod_eq_iff fst_conv snd_conv bounce_select_loop_fst bounce_select_loop_snd simp_thms)
next
  fix em
  assume a: "scene_id c \<noteq> None \<and> find (\<lambda>e. emote_id e = emoteId) (settings_emotes c) = Some em"
  then have s: "scene_id c \<noteq> None"
    and f: "find (\<lambda>e. emote_id e = emoteId) (settings_emotes c) = Some em"
    by (rule conjunct1, rule conjunct2)
  have "playEmote emoteId c = emote_loop emoteId (controlled c) (c\<lparr>trace := trace c\<rparr>)"
    using assms(1) f by (simp add: playEmote_def)
  then show "playEmote emoteId c =
              (None,
               map (\<lambda>r. fst (renderEmoteLocally (scene_id c) (tok_id (tokens c r)) emoteId c))
                 (filter owned (controlled c)),
               c\<lparr>trace := trace c @ concat (map (\<lambda>r.
                   if \<not> owned r then [permission_warning ''emote with'' (name r)]
                   else (if canvas_tokens_get c (tok_id (tokens c r)) \<noteq> None
                             \<and> activeEmotes c (emoteKey (tok_id (tokens c r)) emoteId) = None
                         then [LoadTexture (emote_image em)] else [])
                        @ [SocketEmit (scene_id c) (tok_id (tokens c r)) emoteId])
                 (controlled c))\<rparr>)"
    unfolding assms(3-5) by (simp only: emote_loop_eq [OF s f])
qed

lemma table_heart:
  "find (\<lambda>e. emote_id e = ''heart'') (settings_emotes table) =
     Some (default_emote ''heart'' ''Heart'' 1500)"
  "canvas_tokens_get table ''A'' = Some 0"
  "emote_image (default_emote ''heart'' ''Heart'' 1500) = ''modules/tokenflipper/assets/heart.svg''"
  by (simp_all add: settings_emotes_def canvas_tokens_get_def table_facts token_A_facts
        getDefaultEmotes_def default_emote_def)

theorem non_owned_tokens_skipped_others_processed_witness:
  "trace (flipSelectedTokens ''horizontal'' table) =
     [DocumentUpdate (Update 0 ScaleX (- (3 / 4)) True 200 None),
      NotifyWarn ''You don't have permission to flip Bob.'']
   \<and> texture_scaleX (document (tokens (flipSelectedTokens ''horizontal'' table) 0)) = - (3 / 4)
   \<and> tokens (flipSelectedTokens ''horizontal'' table) 1 = token_B
   \<and> fst (bounceSelectedTokens table) = [doBounceAnimation table 0 20 150 3]
   \<and> trace (snd (bounceSelectedTokens table)) =
       [NotifyWarn ''You don't have permission to bounce Bob.'']
   \<and> fst (playEmote ''heart'' table) = None
   \<and> trace (snd (snd (playEmote ''heart'' table))) =
       [LoadTexture ''modules/tokenflipper/assets/heart.svg'',
        SocketEmit (Some ''S'') ''A'' ''heart'',
        NotifyWarn ''You don't have permission to emote with Bob.'']"
proof -
  have h1: "controlled table \<noteq> []" and h2: "distinct (controlled table)"
    by (simp_all add: table_facts)
  have h3: "scene_id table \<noteq> None
      \<and> find (\<lambda>e. emote_id e = ''heart'') (settings_emotes table) =
         Some (default_emote ''heart'' ''Heart'' 1500)"
    by (simp add: table_facts table_heart)
  note F = non_owned_tokens_skipped_others_processed
    [OF h1 h2 refl refl refl refl, of "''horizontal''" "''heart''"]
  from F have flip_trace: "trace (flipSelectedTokens ''horizontal'' table) = trace table @ concat (map (\<lambda>r.
            if \<not> isOwner (document (tokens table r))
            then [permission_warning ''flip'' (tok_name (tokens table r))]
            else if animating (tokens table r) then []
            else [DocumentUpdate (Update r (if ''horizontal'' = ''vertical'' then ScaleY else ScaleX)
                    (- getProperty (document (tokens table r))
                         (if ''horizontal'' = ''vertical'' then ScaleY else ScaleX))
                    (0 < flipDuration table) (flipDuration table) None)]) (controlled table))"
    by (rule conjunct1)
  from F have flip_tokens: "tokens (flipSelectedTokens ''horizontal'' table) r =
            (if r \<in> set (controlled table) \<and> isOwner (document (tokens table r))
                  \<and> \<not> animating (tokens table r)
             then (tokens table r)\<lparr>document :=
                    setProperty (if ''horizontal'' = ''vertical'' then ScaleY else ScaleX)
                      (- getProperty (document (tokens table r))
                           (if ''horizontal'' = ''vertical'' then ScaleY else ScaleX))
                      (document (tokens table r))\<rparr>
             else tokens table r)" for r
    by (elim conjE allE [of _ r])
  from F have bounce: "bounceSelectedTokens table =
           (map (\<lambda>r. doBounceAnimation table r (bounceHeight table) (bounceDuration table)
                        (bounceCount table))
              (filter (\<lambda>r. isOwner (document (tokens table r)) \<and> \<not> animating (tokens table r))
                 (controlled table)),
            table\<lparr>trace := trace table @
                 map (\<lambda>r. permission_warning ''bounce'' (tok_name (tokens table r)))
                     (filter (\<lambda>r. \<not> isOwner (document (tokens table r))) (controlled table))\<rparr>)"
    by (elim conjE)
  from F have "\<forall>em. scene_id table \<noteq> None
              \<and> find (\<lambda>e. emote_id e = ''heart'') (settings_emotes table) = Some em \<longrightarrow>
            playEmote ''heart'' table =
              (None,
               map (\<lambda>r. fst (renderEmoteLocally (scene_id table) (tok_id (tokens table r)) ''heart'' table))
                 (filter (\<lambda>r. isOwner (document (tokens table r))) (controlled table)),
               table\<lparr>trace := trace table @ concat (map (\<lambda>r.
                   if \<not> isOwner (document (tokens table r))
                   then [permission_warning ''emote with'' (tok_name (tokens table r))]
                   else (if canvas_tokens_get table (tok_id (tokens table r)) \<noteq> None
                             \<and> activeEmotes table (emoteKey (tok_id (tokens table r)) ''heart'') = None
                         then [LoadTexture (emote_image em)] else [])
                        @ [SocketEmit (scene_id table) (tok_id (tokens table r)) ''heart''])
                 (controlled table))\<rparr>)"
    by (elim conjE)
  from this [rule_format, OF h3]
  have emote: "playEmote ''heart'' table =
              (None,
               map (\<lambda>r. fst (renderEmoteLocally (scene_id table) (tok_id (tokens table r)) ''heart'' table))
                 (filter (\<lambda>r. isOwner (document (tokens table r))) (controlled table)),
               table\<lparr>trace := trace table @ concat (map (\<lambda>r.
                   if \<not> isOwner (document (tokens table r))
                   then [permission_warning ''emote with'' (tok_name (tokens table r))]
                   else (if canvas_tokens_get table (tok_id (tokens table r)) \<noteq> None
                             \<and> activeEmotes table (emoteKey (tok_id (tokens table r)) ''heart'') = None
                         then [LoadTexture (emote_image (default_emote ''heart'' ''Heart'' 1500))] else [])
                        @ [SocketEmit (scene_id table) (tok_id (tokens table r)) ''heart''])
                 (controlled table))\<rparr>)" .
  have a: "trace (flipSelectedTokens ''horizontal'' table) =
     [DocumentUpdate (Update 0 ScaleX (- (3 / 4)) True 200 None),
      NotifyWarn ''You don't have permission to flip Bob.'']"
    unfolding flip_trace
    by (simp add: table_facts token_A_facts token_B_facts permission_warning_def)
  have b: "texture_scaleX (document (tokens (flipSelectedTokens ''horizontal'' table) 0)) = - (3 / 4)"
    unfolding flip_tokens by (simp add: table_facts token_A_facts)
  have c: "tokens (flipSelectedTokens ''horizontal'' table) 1 = token_B"
    unfolding flip_tokens by (simp add: table_facts token_B_facts)
  have d: "fst (bounceSelectedTokens table) = [doBounceAnimation table 0 20 150 3]"
    unfolding bounce by (simp add: table_facts token_A_facts token_B_facts)
  have e: "trace (snd (bounceSelectedTokens table)) =
       [NotifyWarn ''You don't have permission to bounce Bob.'']"
    unfolding bounce by (simp add: table_facts token_A_facts token_B_facts permission_warning_def)
  have f: "fst (playEmote ''heart'' table) = None"
    unfolding emote by simp
  have g: "trace (snd (snd (playEmote ''heart'' table))) =
       [LoadTexture ''modules/tokenflipper/assets/heart.svg'',
        SocketEmit (Some ''S'') ''A'' ''heart'',
        NotifyWarn ''You don't have permission to emote with Bob.'']"
    unfolding emote
    by (simp add: table_facts token_A_facts token_B_facts table_heart permission_warning_def)
  from a b c d e f g show ?thesis by (intro conjI)
qed

end
